theory Spec2Isabelle
  imports Complex_Main "HOL-Library.Char_ord" "HOL-Library.List_Lexorder" "HOL-Library.Product_Lexorder"
begin

section \<open>Strings\<close>

text \<open>
  Strings are lists of characters. The scanner runs on POSIX paths; a character stands for
  one code point of the Python string, and the code points below U+0100 are the ones the
  model holds (for \<open>lower()\<close>, \<open>strip()\<close> and the comparisons of characters).
\<close>

definition LF :: char where
  "LF = CHR 0x0A"

definition CR :: char where
  "CR = CHR 0x0D"

definition startswith :: "string \<Rightarrow> string \<Rightarrow> bool" where
  "startswith s p = (take (length p) s = p)"

definition endswith :: "string \<Rightarrow> string \<Rightarrow> bool" where
  "endswith s p = (length p \<le> length s \<and> drop (length s - length p) s = p)"

text \<open>
  \<open>str.lower()\<close> on the code points below U+0100: the letters A to Z, and the capitals
  U+00C0 to U+00DE of Latin-1 (the multiplication sign U+00D7 apart), each 32 below its
  small letter.
\<close>

definition LATIN1_UPPER :: string where
  "LATIN1_UPPER =
     [CHR 0xC0, CHR 0xC1, CHR 0xC2, CHR 0xC3, CHR 0xC4, CHR 0xC5, CHR 0xC6, CHR 0xC7,
      CHR 0xC8, CHR 0xC9, CHR 0xCA, CHR 0xCB, CHR 0xCC, CHR 0xCD, CHR 0xCE, CHR 0xCF,
      CHR 0xD0, CHR 0xD1, CHR 0xD2, CHR 0xD3, CHR 0xD4, CHR 0xD5, CHR 0xD6,
      CHR 0xD8, CHR 0xD9, CHR 0xDA, CHR 0xDB, CHR 0xDC, CHR 0xDD, CHR 0xDE]"

definition LATIN1_LOWER :: string where
  "LATIN1_LOWER =
     [CHR 0xE0, CHR 0xE1, CHR 0xE2, CHR 0xE3, CHR 0xE4, CHR 0xE5, CHR 0xE6, CHR 0xE7,
      CHR 0xE8, CHR 0xE9, CHR 0xEA, CHR 0xEB, CHR 0xEC, CHR 0xED, CHR 0xEE, CHR 0xEF,
      CHR 0xF0, CHR 0xF1, CHR 0xF2, CHR 0xF3, CHR 0xF4, CHR 0xF5, CHR 0xF6,
      CHR 0xF8, CHR 0xF9, CHR 0xFA, CHR 0xFB, CHR 0xFC, CHR 0xFD, CHR 0xFE]"

definition lower_char :: "char \<Rightarrow> char" where
  "lower_char c =
     (case map_of (zip (''ABCDEFGHIJKLMNOPQRSTUVWXYZ'' @ LATIN1_UPPER)
                       (''abcdefghijklmnopqrstuvwxyz'' @ LATIN1_LOWER)) c of
        None \<Rightarrow> c
      | Some l \<Rightarrow> l)"

definition lower :: "string \<Rightarrow> string" where
  "lower s = map lower_char s"

text \<open>
  \<open>str.strip()\<close>: the white space of Python below U+0100 is TAB, LF, VT, FF, CR, the four
  separators 0x1C..0x1F, the blank, NEL (U+0085) and the no-break space (U+00A0).
\<close>

definition is_space :: "char \<Rightarrow> bool" where
  "is_space c =
     (let n = (of_char c :: nat)
      in (9 \<le> n \<and> n \<le> 13) \<or> (28 \<le> n \<and> n \<le> 32) \<or> n = 133 \<or> n = 160)"

definition strip :: "string \<Rightarrow> string" where
  "strip s = rev (dropWhile is_space (rev (dropWhile is_space s)))"

text \<open>
  Iterating over a file opened in text mode: universal newlines turn CR LF and a lone CR
  into LF, and every line keeps its LF.
\<close>

fun universal_newlines :: "string \<Rightarrow> string" where
  "universal_newlines [] = []"
| "universal_newlines [c] = (if c = CR then [LF] else [c])"
| "universal_newlines (c # d # cs) =
     (if c = CR \<and> d = LF then LF # universal_newlines cs
      else if c = CR then LF # universal_newlines (d # cs)
      else c # universal_newlines (d # cs))"

fun lines_from :: "string \<Rightarrow> string \<Rightarrow> string list" where
  "lines_from cur [] = (if cur = [] then [] else [cur])"
| "lines_from cur (c # cs) =
     (if c = LF then (cur @ [c]) # lines_from [] cs else lines_from (cur @ [c]) cs)"

definition file_lines :: "string \<Rightarrow> string list" where
  "file_lines s = lines_from [] (universal_newlines s)"

text \<open>\<open>os.path.basename\<close>: what follows the last slash.\<close>

definition basename :: "string \<Rightarrow> string" where
  "basename p = rev (takeWhile (\<lambda>c. c \<noteq> CHR ''/'') (rev p))"

text \<open>\<open>str(n)\<close> for a natural number.\<close>

definition digit_char :: "nat \<Rightarrow> char" where
  "digit_char d = ''0123456789'' ! d"

fun str_nat :: "nat \<Rightarrow> string" where
  "str_nat n = (if n < 10 then [digit_char n] else str_nat (n div 10) @ [digit_char (n mod 10)])"

declare str_nat.simps [simp del]

section \<open>Glob matching\<close>

text \<open>
  \<open>fnmatch.fnmatch(name, pat)\<close> of the standard library, on POSIX (where
  \<open>os.path.normcase\<close> is the identity). The library translates the pattern into a regular
  expression and matches the whole name against it: \<open>*\<close> is any run of characters
  (slashes included), \<open>?\<close> any one character, \<open>[seq]\<close> one character of the class,
  \<open>[!seq]\<close> one character outside it, a bracket that is never closed the character
  \<open>[\<close> itself, anything else itself.
\<close>

datatype glob_token = Star | AnyChar | CharClass bool string | Lit char

text \<open>
  The scan for the closing bracket: a \<open>!\<close> right after the opening bracket and a
  \<open>]\<close> right after that belong to the class. The result is the text of the class and the
  pattern after the closing bracket, or \<open>None\<close> when the bracket is not closed.
\<close>

definition split_bracket :: "string \<Rightarrow> (string \<times> string) option" where
  "split_bracket r =
     (let neg = (if r \<noteq> [] \<and> hd r = CHR ''!'' then 1 else 0);
          r1 = drop neg r;
          fst_close = (if r1 \<noteq> [] \<and> hd r1 = CHR '']'' then 1 else 0);
          r2 = drop fst_close r1;
          body = takeWhile (\<lambda>c. c \<noteq> CHR '']'') r2;
          rest = dropWhile (\<lambda>c. c \<noteq> CHR '']'') r2
      in if rest = [] then None
         else Some (take (neg + fst_close) r @ body, tl rest))"

lemma split_bracket_shorter:
  assumes "split_bracket r = Some (stuff, rest)"
  shows "length rest < Suc (length r)"
proof -
  define neg :: nat where "neg = (if r \<noteq> [] \<and> hd r = CHR ''!'' then 1 else 0)"
  define fc :: nat where
    "fc = (if drop neg r \<noteq> [] \<and> hd (drop neg r) = CHR '']'' then 1 else 0)"
  define r2 where "r2 = drop fc (drop neg r)"
  have "split_bracket r =
          (if dropWhile (\<lambda>c. c \<noteq> CHR '']'') r2 = [] then None
           else Some (take (neg + fc) r @ takeWhile (\<lambda>c. c \<noteq> CHR '']'') r2,
                      tl (dropWhile (\<lambda>c. c \<noteq> CHR '']'') r2)))"
    unfolding split_bracket_def Let_def neg_def fc_def r2_def by (rule refl)
  with assms have "rest = tl (dropWhile (\<lambda>c. c \<noteq> CHR '']'') r2)"
    by (simp split: if_splits)
  moreover have "length (dropWhile (\<lambda>c. c \<noteq> CHR '']'') r2) \<le> length r2"
    by (rule length_dropWhile_le)
  moreover have "length r2 \<le> length r"
    by (simp add: r2_def)
  ultimately show ?thesis
    by simp
qed

function translate :: "string \<Rightarrow> glob_token list" where
  "translate [] = []"
| "translate (c # cs) =
     (if c = CHR ''*'' then Star # translate cs
      else if c = CHR ''?'' then AnyChar # translate cs
      else if c = CHR ''['' then
        (case split_bracket cs of
           None \<Rightarrow> Lit c # translate cs
         | Some (stuff, rest) \<Rightarrow>
             (if stuff \<noteq> [] \<and> hd stuff = CHR ''!''
              then CharClass True (tl stuff) # translate rest
              else CharClass False stuff # translate rest))
      else Lit c # translate cs)"
  by pat_completeness auto
termination
  by (relation "measure length") (auto dest: split_bracket_shorter)

text \<open>
  The members of a class: \<open>a-b\<close> is the range from \<open>a\<close> to \<open>b\<close> (empty when
  \<open>a\<close> is above \<open>b\<close>); a hyphen that opens or closes the class, or that follows a range,
  is the hyphen itself.
\<close>

fun in_class :: "char \<Rightarrow> string \<Rightarrow> bool" where
  "in_class c [] = False"
| "in_class c [a] = (c = a)"
| "in_class c [a, b] = (c = a \<or> c = b)"
| "in_class c (a # b # d # rest) =
     (if b = CHR ''-'' then (a \<le> c \<and> c \<le> d) \<or> in_class c rest
      else c = a \<or> in_class c (b # d # rest))"

fun glob_match :: "glob_token list \<Rightarrow> string \<Rightarrow> bool" where
  "glob_match [] s = (s = [])"
| "glob_match (Star # ts) [] = glob_match ts []"
| "glob_match (Star # ts) (c # cs) = (glob_match ts (c # cs) \<or> glob_match (Star # ts) cs)"
| "glob_match (AnyChar # ts) [] = False"
| "glob_match (AnyChar # ts) (c # cs) = glob_match ts cs"
| "glob_match (CharClass neg stuff # ts) [] = False"
| "glob_match (CharClass neg stuff # ts) (c # cs) =
     ((in_class c stuff \<noteq> neg) \<and> glob_match ts cs)"
| "glob_match (Lit a # ts) [] = False"
| "glob_match (Lit a # ts) (c # cs) = (c = a \<and> glob_match ts cs)"

definition fnmatch :: "string \<Rightarrow> string \<Rightarrow> bool" where
  "fnmatch name pat = glob_match (translate pat) name"

section \<open>The ignore-pattern matcher\<close>

text \<open>
  \<open>GitignoreParser\<close> keeps the list of \<open>(pattern, is_negation)\<close> pairs in file order.
  What reading the file gives is an input of the model: no file, its text, or a failure
  (\<open>ReadFailed\<close> with the text of the lines that were read before the exception, empty
  when the file cannot be opened).
\<close>

datatype py_error =
  OSError | PermissionError | JSONDecodeError | TypeError | KeyError | OverflowError

datatype 'a file_read = NoFile | ReadFailed 'a | Content 'a

type_synonym ignore_rule = "string \<times> bool"

text \<open>One line of the file: stripped, skipped when empty or a comment, negated by \<open>!\<close>.\<close>

definition parse_line :: "string \<Rightarrow> ignore_rule list" where
  "parse_line raw =
     (let line = strip raw in
      if line = [] \<or> startswith line ''#'' then []
      else if startswith line ''!'' then [(tl line, True)]
      else [(line, False)])"

fun load_lines :: "ignore_rule list \<Rightarrow> string list \<Rightarrow> ignore_rule list" where
  "load_lines patterns [] = patterns"
| "load_lines patterns (l # ls) = load_lines (patterns @ parse_line l) ls"

text \<open>
  \<open>load\<close> returns the patterns and the warnings printed on the diagnostic stream; the
  patterns appended before a failure stay.
\<close>

definition load :: "ignore_rule list \<Rightarrow> string file_read \<Rightarrow> ignore_rule list \<times> py_error list" where
  "load patterns src =
     (case src of
        Content s \<Rightarrow> (load_lines patterns (file_lines s), [])
      | ReadFailed s \<Rightarrow> (load_lines patterns (file_lines s), [OSError])
      | NoFile \<Rightarrow> (patterns, [OSError]))"

definition GitignoreParser :: "string file_read \<Rightarrow> ignore_rule list \<times> py_error list" where
  "GitignoreParser src = (if src = NoFile then ([], []) else load [] src)"

text \<open>The loop of \<open>should_ignore\<close>, with the running flag.\<close>

fun should_ignore_loop :: "bool \<Rightarrow> ignore_rule list \<Rightarrow> string \<Rightarrow> bool" where
  "should_ignore_loop ignored [] path = ignored"
| "should_ignore_loop ignored ((pattern, is_negation) # ps) path =
     should_ignore_loop
       (if fnmatch path pattern \<or> fnmatch (basename path) pattern then \<not> is_negation
        else ignored)
       ps path"

definition should_ignore :: "ignore_rule list \<Rightarrow> string \<Rightarrow> bool" where
  "should_ignore patterns path =
     (if patterns = [] then False else should_ignore_loop False patterns path)"

text \<open>A rule applies to a path when its pattern matches the path or its base name.\<close>

definition rule_matches :: "string \<Rightarrow> ignore_rule \<Rightarrow> bool" where
  "rule_matches path r = (fnmatch path (fst r) \<or> fnmatch (basename path) (fst r))"

section \<open>Size formatting\<close>

text \<open>
  \<open>_format_size\<close> starts with the integer byte count and divides by the float 1024.0
  until the value is below 1024.0. The first division turns the integer into a double:
  the nearest number with a significand of 53 bits, ties going to the even significand, and
  \<open>OverflowError\<close> when that number is \<open>2 ^ 1024\<close> or more. A double divided by a power of
  two is exact, so from there on the value is a rational number the model holds exactly.
\<close>

fun bit_length :: "nat \<Rightarrow> nat" where
  "bit_length n = (if n = 0 then 0 else Suc (bit_length (n div 2)))"

declare bit_length.simps [simp del]

definition round_to_double :: "nat \<Rightarrow> nat" where
  "round_to_double n =
     (let e = bit_length n - 53; q = n div 2 ^ e; r = n mod 2 ^ e
      in (if 2 * r < 2 ^ e then q
          else if 2 ^ e < 2 * r then q + 1
          else if even q then q else q + 1) * 2 ^ e)"

text \<open>The value of \<open>size_bytes\<close>: the integer passed in, or a double.\<close>

datatype number = PyInt nat | PyFloat rat

definition to_float :: "number \<Rightarrow> py_error + rat" where
  "to_float x =
     (case x of
        PyFloat v \<Rightarrow> Inr v
      | PyInt n \<Rightarrow>
          (if 2 ^ 1024 \<le> round_to_double n then Inl OverflowError
           else Inr (of_nat (round_to_double n))))"

definition below_1024 :: "number \<Rightarrow> bool" where
  "below_1024 x = (case x of PyInt n \<Rightarrow> n < 1024 | PyFloat v \<Rightarrow> v < 1024)"

text \<open>
  \<open>:.2f\<close> prints the decimal with two digits after the point that is nearest to the
  exact value of the double, ties going to the even digit.
\<close>

definition round_half_even :: "rat \<Rightarrow> int" where
  "round_half_even x =
     (let f = \<lfloor>x\<rfloor>; r = x - of_int f in
      if r < 1 / 2 then f else if 1 / 2 < r then f + 1 else if even f then f else f + 1)"

definition fmt_2f :: "rat \<Rightarrow> string" where
  "fmt_2f x =
     (let h = nat (round_half_even (x * 100)) in
      str_nat (h div 100) @ ''.'' @ [digit_char (h mod 100 div 10), digit_char (h mod 10)])"

definition format_2f :: "number \<Rightarrow> py_error + string" where
  "format_2f x = (case to_float x of Inl e \<Rightarrow> Inl e | Inr v \<Rightarrow> Inr (fmt_2f v))"

fun format_size_loop :: "number \<Rightarrow> string list \<Rightarrow> py_error + string" where
  "format_size_loop size_bytes [] =
     (case format_2f size_bytes of Inl e \<Rightarrow> Inl e | Inr s \<Rightarrow> Inr (s @ '' TB''))"
| "format_size_loop size_bytes (unit # units) =
     (if below_1024 size_bytes then
        (case format_2f size_bytes of Inl e \<Rightarrow> Inl e | Inr s \<Rightarrow> Inr (s @ '' '' @ unit))
      else case to_float size_bytes of
        Inl e \<Rightarrow> Inl e
      | Inr v \<Rightarrow> format_size_loop (PyFloat (v / 1024)) units)"

definition format_size :: "nat \<Rightarrow> py_error + string" where
  "format_size size_bytes = format_size_loop (PyInt size_bytes) [''B'', ''KB'', ''MB'', ''GB'']"

section \<open>Configuration\<close>

text \<open>
  What \<open>json.load\<close> returns. Arrays are arrays of strings, the element type of every set
  of \<open>ProjectConfig\<close>; numbers are integers. An object keeps its members in file order and
  the last member of a repeated key is the one Python keeps.
\<close>

datatype json =
  JNull | JBool bool | JNum int | JStr string | JArr "string list" | JObj "(string \<times> json) list"

text \<open>
  \<open>ProjectConfig\<close>. A Python set is a list here (its members in one fixed iteration
  order). \<open>max_file_size\<close> and \<open>include_hidden\<close> hold the value that was stored, whatever
  its type: the override file assigns them unchecked.
\<close>

record ProjectConfig =
  name :: string
  project_type :: string
  code_extensions :: "string list"
  config_files :: "string list"
  ignore_dirs :: "string list"
  ignore_files :: "string list"
  ignore_extensions :: "string list"
  ignore_patterns :: "string list"
  target_subdirs :: "string list"
  max_file_size :: json
  include_hidden :: json

definition DEFAULT_MAX_FILE_SIZE :: int where
  "DEFAULT_MAX_FILE_SIZE = 1 * 1024 * 1024"

text \<open>\<open>s.update(t)\<close> and \<open>s.add(x)\<close> on a set.\<close>

definition set_update :: "string list \<Rightarrow> string list \<Rightarrow> string list" where
  "set_update s t = s @ filter (\<lambda>x. x \<notin> set s) (remdups t)"

definition set_add :: "string list \<Rightarrow> string \<Rightarrow> string list" where
  "set_add s x = set_update s [x]"

text \<open>The truth value of a Python object.\<close>

fun truthy :: "json \<Rightarrow> bool" where
  "truthy JNull = False"
| "truthy (JBool b) = b"
| "truthy (JNum n) = (n \<noteq> 0)"
| "truthy (JStr s) = (s \<noteq> [])"
| "truthy (JArr xs) = (xs \<noteq> [])"
| "truthy (JObj kvs) = (kvs \<noteq> [])"

definition load_default_config :: "string \<Rightarrow> string list \<Rightarrow> ProjectConfig" where
  "load_default_config project_name project_types =
     (let config = \<lparr>
            name = project_name,
            project_type = ''generic'',
            code_extensions =
              [''.py'', ''.js'', ''.jsx'', ''.ts'', ''.tsx'', ''.java'', ''.kt'', ''.kts'',
               ''.rs'', ''.go'', ''.c'', ''.cpp'', ''.h'', ''.hpp'', ''.cs'', ''.rb'',
               ''.php'', ''.swift'', ''.dart'', ''.html'', ''.css'', ''.scss'', ''.sass'',
               ''.md'', ''.json'', ''.yaml'', ''.yml'', ''.xml'', ''.toml'', ''.sh'', ''.bash''],
            config_files =
              [''package.json'', ''tsconfig.json'', ''webpack.config.js'',
               ''vite.config.js'', ''next.config.js'', ''.eslintrc.js'',
               ''requirements.txt'', ''setup.py'', ''pyproject.toml'', ''Pipfile'',
               ''pom.xml'', ''build.gradle'', ''settings.gradle'',
               ''Cargo.toml'', ''go.mod'', ''composer.json'', ''Gemfile'',
               ''pubspec.yaml'', ''Dockerfile'', ''docker-compose.yml'',
               ''README.md'', ''LICENSE'', ''.gitignore''],
            ignore_dirs =
              [''node_modules'', ''dist'', ''build'', ''target'', ''__pycache__'',
               ''.git'', ''.svn'', ''.hg'', ''.vscode'', ''.idea'', ''.DS_Store'',
               ''venv'', ''env'', ''.env'', ''virtualenv'', ''.tox'',
               ''coverage'', ''htmlcov'', ''.pytest_cache'', ''.mypy_cache'',
               ''.gradle'', ''.mvn'', ''out'', ''bin'', ''obj'',
               ''.next'', ''.nuxt'', ''.cache'', ''.parcel-cache'',
               ''Pods'', ''DerivedData'', ''.dart_tool'', ''.pub-cache''],
            ignore_files =
              [''.DS_Store'', ''Thumbs.db'', ''desktop.ini'',
               ''*.log'', ''*.pid'', ''*.seed'', ''*.lock'',
               ''package-lock.json'', ''yarn.lock'', ''pnpm-lock.yaml'',
               ''Pipfile.lock'', ''Cargo.lock'', ''go.sum'',
               ''.env'', ''.env.local'', ''.env.production''],
            ignore_extensions =
              [''.pyc'', ''.pyo'', ''.pyd'', ''.so'', ''.dll'', ''.dylib'',
               ''.class'', ''.jar'', ''.exe'', ''.bin'', ''.obj'', ''.o'',
               ''.png'', ''.jpg'', ''.jpeg'', ''.gif'', ''.ico'', ''.svg'',
               ''.woff'', ''.woff2'', ''.ttf'', ''.otf'', ''.eot'',
               ''.mp3'', ''.mp4'', ''.avi'', ''.mov'', ''.zip'', ''.tar'', ''.gz''],
            ignore_patterns = [],
            target_subdirs = [],
            max_file_size = JNum DEFAULT_MAX_FILE_SIZE,
            include_hidden = JBool False \<rparr>;
          primary_type = (case project_types of [] \<Rightarrow> ''generic'' | t # _ \<Rightarrow> t);
          config = config \<lparr> project_type := primary_type \<rparr>;
          config =
            (if ''python'' \<in> set project_types \<or> ''django'' \<in> set project_types
             then config \<lparr> target_subdirs := [''src'', ''app'', ''backend'', ''back''],
                          code_extensions := set_update (code_extensions config) [''.pyx'', ''.pyi''] \<rparr>
             else config);
          config =
            (if ''nodejs'' \<in> set project_types \<or> ''react'' \<in> set project_types
                \<or> ''vue'' \<in> set project_types
             then config \<lparr> target_subdirs := [''src'', ''lib'', ''components'', ''pages''],
                          code_extensions :=
                            set_update (code_extensions config) [''.mjs'', ''.cjs'', ''.vue''] \<rparr>
             else config);
          config =
            (if ''java'' \<in> set project_types \<or> ''spring'' \<in> set project_types
             then config \<lparr> target_subdirs := [''src/main/java'', ''src/main/resources'', ''src''],
                          ignore_dirs := set_update (ignore_dirs config) [''target'', ''.gradle'', ''.mvn''] \<rparr>
             else config);
          config =
            (if ''rust'' \<in> set project_types
             then config \<lparr> target_subdirs := [''src''],
                          ignore_dirs := set_add (ignore_dirs config) ''target'' \<rparr>
             else config);
          config =
            (if ''go'' \<in> set project_types
             then config \<lparr> target_subdirs := [''pkg'', ''cmd'', ''internal''] \<rparr>
             else config);
          config =
            (if ''flutter'' \<in> set project_types
             then config \<lparr> target_subdirs := [''lib''],
                          ignore_dirs :=
                            set_update (ignore_dirs config) [''.dart_tool'', ''build'', ''android'', ''ios''] \<rparr>
             else config)
      in config)"

text \<open>
  The operations of \<open>load_from_file\<close> on the parsed document: \<open>key in data\<close>,
  \<open>data[key]\<close> and \<open>set(value)\<close>, each with the \<open>TypeError\<close> Python raises on a value
  of the wrong type.
\<close>

definition py_contains :: "json \<Rightarrow> string \<Rightarrow> py_error + bool" where
  "py_contains data key =
     (case data of
        JObj kvs \<Rightarrow> Inr (key \<in> set (map fst kvs))
      | JArr xs \<Rightarrow> Inr (key \<in> set xs)
      | JStr s \<Rightarrow> Inr (key \<in> set (map (\<lambda>i. take (length key) (drop i s)) [0..<Suc (length s)]))
      | _ \<Rightarrow> Inl TypeError)"

definition py_getitem :: "json \<Rightarrow> string \<Rightarrow> py_error + json" where
  "py_getitem data key =
     (case data of
        JObj kvs \<Rightarrow> (case map_of (rev kvs) key of None \<Rightarrow> Inl KeyError | Some v \<Rightarrow> Inr v)
      | _ \<Rightarrow> Inl TypeError)"

definition py_set :: "json \<Rightarrow> py_error + string list" where
  "py_set v =
     (case v of
        JArr xs \<Rightarrow> Inr (remdups xs)
      | JStr s \<Rightarrow> Inr (remdups (map (\<lambda>c. [c]) s))
      | JObj kvs \<Rightarrow> Inr (remdups (map fst kvs))
      | _ \<Rightarrow> Inl TypeError)"

text \<open>
  One statement \<open>if key in data: assign(data[key])\<close>. The configuration object is changed
  in place, so a statement that raises leaves it as the statements before made it.
\<close>

definition merge_key ::
  "json \<Rightarrow> string \<Rightarrow> (json \<Rightarrow> ProjectConfig \<Rightarrow> py_error + ProjectConfig) \<Rightarrow>
   ProjectConfig \<Rightarrow> py_error + ProjectConfig" where
  "merge_key data key assign cfg =
     (case py_contains data key of
        Inl e \<Rightarrow> Inl e
      | Inr False \<Rightarrow> Inr cfg
      | Inr True \<Rightarrow> (case py_getitem data key of Inl e \<Rightarrow> Inl e | Inr v \<Rightarrow> assign v cfg))"

fun run_stmts ::
  "(ProjectConfig \<Rightarrow> py_error + ProjectConfig) list \<Rightarrow> ProjectConfig \<Rightarrow>
   ProjectConfig \<times> py_error option" where
  "run_stmts [] cfg = (cfg, None)"
| "run_stmts (s # ss) cfg =
     (case s cfg of Inl e \<Rightarrow> (cfg, Some e) | Inr cfg' \<Rightarrow> run_stmts ss cfg')"

definition merge_stmts :: "json \<Rightarrow> (ProjectConfig \<Rightarrow> py_error + ProjectConfig) list" where
  "merge_stmts data =
     [merge_key data ''code_extensions'' (\<lambda>v cfg. case py_set v of Inl e \<Rightarrow> Inl e
        | Inr s \<Rightarrow> Inr (cfg \<lparr> code_extensions := set_update (code_extensions cfg) s \<rparr>)),
      merge_key data ''ignore_dirs'' (\<lambda>v cfg. case py_set v of Inl e \<Rightarrow> Inl e
        | Inr s \<Rightarrow> Inr (cfg \<lparr> ignore_dirs := set_update (ignore_dirs cfg) s \<rparr>)),
      merge_key data ''ignore_files'' (\<lambda>v cfg. case py_set v of Inl e \<Rightarrow> Inl e
        | Inr s \<Rightarrow> Inr (cfg \<lparr> ignore_files := set_update (ignore_files cfg) s \<rparr>)),
      merge_key data ''ignore_extensions'' (\<lambda>v cfg. case py_set v of Inl e \<Rightarrow> Inl e
        | Inr s \<Rightarrow> Inr (cfg \<lparr> ignore_extensions := set_update (ignore_extensions cfg) s \<rparr>)),
      merge_key data ''target_subdirs'' (\<lambda>v cfg. case py_set v of Inl e \<Rightarrow> Inl e
        | Inr s \<Rightarrow> Inr (cfg \<lparr> target_subdirs := s \<rparr>)),
      merge_key data ''max_file_size'' (\<lambda>v cfg. Inr (cfg \<lparr> max_file_size := v \<rparr>)),
      merge_key data ''include_hidden'' (\<lambda>v cfg. Inr (cfg \<lparr> include_hidden := v \<rparr>))]"

text \<open>
  What opening and parsing \<open>.scanner-config.json\<close> gives: an I/O failure, malformed
  JSON, or the parsed document.
\<close>

datatype json_file = CannotRead | Malformed | Parsed json

text \<open>
  \<open>load_from_file\<close> returns the configuration and the warnings it printed on the
  diagnostic stream (one for the exception it caught, if any).
\<close>

definition load_from_file :: "json_file \<Rightarrow> ProjectConfig \<Rightarrow> ProjectConfig \<times> py_error list" where
  "load_from_file config_file base_config =
     (case config_file of
        CannotRead \<Rightarrow> (base_config, [OSError])
      | Malformed \<Rightarrow> (base_config, [JSONDecodeError])
      | Parsed data \<Rightarrow>
          (case run_stmts (merge_stmts data) base_config of
             (cfg, None) \<Rightarrow> (cfg, [])
           | (cfg, Some e) \<Rightarrow> (cfg, [e])))"

section \<open>The file system\<close>

text \<open>
  A project directory is a tree. A file carries what the scanner can ask of it, each answer
  an input of its own: the size \<open>stat\<close> reports (\<open>None\<close> when it raises), the bytes a binary read
  returns (\<open>None\<close> when it raises) and the text a text read returns (\<open>Inl\<close> with the
  message of the exception when it raises). A directory carries whether the
  process may list and search it, and its entries in the order the operating system lists
  them. There are no
  symbolic links. A path is the list of its components.
\<close>

datatype fsnode =
  is_file: File (st_size: "nat option") (rb_bytes: "string option") (r_text: "string + string")
| is_dir: Dir (accessible: bool) (entries: "(string \<times> fsnode) list")

type_synonym path = "string list"

fun split_on :: "char \<Rightarrow> string \<Rightarrow> string \<Rightarrow> string list" where
  "split_on sep cur [] = [cur]"
| "split_on sep cur (c # cs) =
     (if c = sep then cur # split_on sep [] cs else split_on sep (cur @ [c]) cs)"

text \<open>The components of a relative path written with slashes, as \<open>pathlib\<close> parses it.\<close>

definition path_parts :: "string \<Rightarrow> path" where
  "path_parts s = filter (\<lambda>p. p \<noteq> [] \<and> p \<noteq> ''.'') (split_on (CHR ''/'') [] s)"

text \<open>\<open>str(path)\<close>: the components joined by slashes (\<open>.\<close> for the empty path).\<close>

fun join_path :: "path \<Rightarrow> string" where
  "join_path [] = ''.''"
| "join_path [p] = p"
| "join_path (p # q # ps) = p @ ''/'' @ join_path (q # ps)"

text \<open>
  \<open>stat\<close> of the path below a node, as \<open>Path.exists()\<close> uses it: a missing component,
  or a component below a file, is the answer no; a component below a directory that may
  not be searched is the error EACCES, which \<open>Path.exists()\<close> raises again as
  \<open>PermissionError\<close>.
\<close>

fun path_stat :: "fsnode \<Rightarrow> path \<Rightarrow> py_error + bool" where
  "path_stat n [] = Inr True"
| "path_stat (File sz bs tx) (c # cs) = Inr False"
| "path_stat (Dir ok es) (c # cs) =
     (if \<not> ok then Inl PermissionError
      else case map_of es c of None \<Rightarrow> Inr False | Some n \<Rightarrow> path_stat n cs)"

text \<open>
  \<open>(project_dir / pattern).exists()\<close>; the directory itself may be missing (\<open>None\<close>).
\<close>

definition path_exists :: "fsnode option \<Rightarrow> string \<Rightarrow> py_error + bool" where
  "path_exists project_dir pattern =
     (case project_dir of
        None \<Rightarrow> Inr False
      | Some d \<Rightarrow> path_stat d (path_parts pattern))"

section \<open>The project classifier\<close>

definition DETECTION_PATTERNS :: "(string \<times> string list) list" where
  "DETECTION_PATTERNS =
     [(''nodejs'', [''package.json'', ''node_modules'']),
      (''python'', [''requirements.txt'', ''setup.py'', ''pyproject.toml'', ''Pipfile'', ''__pycache__'']),
      (''django'', [''manage.py'', ''settings.py'', ''wsgi.py'']),
      (''react'', [''package.json'', ''src/App.jsx'', ''src/App.tsx'', ''public/index.html'']),
      (''nextjs'', [''next.config.js'', ''next.config.mjs'', ''pages'', ''app'']),
      (''vue'', [''package.json'', ''vue.config.js'', ''src/App.vue'']),
      (''angular'', [''package.json'', ''angular.json'', ''src/app'']),
      (''java'', [''pom.xml'', ''build.gradle'', ''gradlew'', ''src/main/java'']),
      (''maven'', [''pom.xml'', ''mvnw'']),
      (''gradle'', [''build.gradle'', ''settings.gradle'', ''gradlew'']),
      (''spring'', [''pom.xml'', ''application.properties'', ''application.yml'']),
      (''rust'', [''Cargo.toml'', ''Cargo.lock'', ''src/main.rs'']),
      (''go'', [''go.mod'', ''go.sum'', ''main.go'']),
      (''dotnet'', [''.csproj'', ''.sln'', ''.fsproj'', ''.vbproj'']),
      (''php'', [''composer.json'', ''index.php'', ''artisan'']),
      (''laravel'', [''composer.json'', ''artisan'', ''app/Http'']),
      (''ruby'', [''Gemfile'', ''Rakefile'', ''.rb'']),
      (''rails'', [''Gemfile'', ''Rakefile'', ''config/application.rb'']),
      (''flutter'', [''pubspec.yaml'', ''lib/main.dart'', ''android'', ''ios'']),
      (''docker'', [''Dockerfile'', ''docker-compose.yml''])]"

text \<open>
  The inner loop of \<open>detect_project_types\<close>. \<open>rglob\<close> stands for the recursive search of
  \<open>pathlib\<close>: \<open>rglob pattern\<close> says whether \<open>project_dir.rglob(pattern)\<close> finds anything.
  An exception of \<open>exists()\<close> is not caught and ends the detection.
\<close>

fun count_matches ::
  "(string \<Rightarrow> bool) \<Rightarrow> fsnode option \<Rightarrow> nat \<Rightarrow> string list \<Rightarrow> py_error + nat" where
  "count_matches rglob project_dir matches [] = Inr matches"
| "count_matches rglob project_dir matches (pattern # patterns) =
     (case path_exists project_dir pattern of
        Inl e \<Rightarrow> Inl e
      | Inr True \<Rightarrow> count_matches rglob project_dir (matches + 1) patterns
      | Inr False \<Rightarrow>
          count_matches rglob project_dir
            (if CHR ''*'' \<in> set pattern \<and> rglob pattern then matches + 1 else matches)
            patterns)"

fun detect_loop ::
  "(string \<Rightarrow> bool) \<Rightarrow> fsnode option \<Rightarrow> string list \<Rightarrow> (string \<times> string list) list \<Rightarrow>
   py_error + string list" where
  "detect_loop rglob project_dir detected_types [] = Inr detected_types"
| "detect_loop rglob project_dir detected_types ((label, patterns) # rest) =
     (case count_matches rglob project_dir 0 patterns of
        Inl e \<Rightarrow> Inl e
      | Inr matches \<Rightarrow>
          detect_loop rglob project_dir
            (if 0 < matches then detected_types @ [label] else detected_types)
            rest)"

definition detect_project_types ::
  "(string \<Rightarrow> bool) \<Rightarrow> fsnode option \<Rightarrow> py_error + string list" where
  "detect_project_types rglob project_dir =
     (case detect_loop rglob project_dir [] DETECTION_PATTERNS of
        Inl e \<Rightarrow> Inl e
      | Inr detected_types \<Rightarrow>
          Inr (if detected_types = [] then [''generic''] else detected_types))"



section \<open>The scanner: ignore and include predicates\<close>

text \<open>
  The second component of what the ignore predicates return is the reason; the scanner
  never prints it, so it is kept as a value rather than as formatted text.
\<close>

datatype reason =
  HiddenFile | InGitignore | MatchesIgnorePattern string | IgnoredExtension string
| FileTooLarge json | CannotStat | HiddenDirectory | InIgnoreList string | NoReason

text \<open>
  \<open>Path.suffix\<close>: the name from its last dot on, unless that dot is the first or the last
  character of the name.
\<close>

definition suffix :: "string \<Rightarrow> string" where
  "suffix filename =
     (let after = rev (takeWhile (\<lambda>c. c \<noteq> CHR ''.'') (rev filename));
          i = length filename - length after - 1
      in if CHR ''.'' \<in> set filename \<and> 0 < i \<and> after \<noteq> [] then drop i filename else [])"

text \<open>
  \<open>st_size > max_file_size\<close>: an integer compares with a number or a boolean; any other
  value raises \<open>TypeError\<close>.
\<close>

definition size_exceeds :: "nat \<Rightarrow> json \<Rightarrow> py_error + bool" where
  "size_exceeds sz limit =
     (case limit of
        JNum n \<Rightarrow> Inr (n < int sz)
      | JBool b \<Rightarrow> Inr ((if b then 1 else 0) < sz)
      | _ \<Rightarrow> Inl TypeError)"

text \<open>
  \<open>should_ignore_file\<close>, for the file at \<open>rel_path\<close> below the project directory whose
  \<open>stat\<close> gives \<open>stat_size\<close> (\<open>None\<close> when it raises \<open>OSError\<close>).
\<close>

definition should_ignore_file ::
  "ProjectConfig \<Rightarrow> ignore_rule list \<Rightarrow> path \<Rightarrow> nat option \<Rightarrow> py_error + (bool \<times> reason)" where
  "should_ignore_file config gitignore rel_path stat_size =
     (let filename = last rel_path; ext = lower (suffix filename) in
      if \<not> truthy (include_hidden config) \<and> startswith filename ''.''
        then Inr (True, HiddenFile)
      else if should_ignore gitignore (join_path rel_path)
        then Inr (True, InGitignore)
      else case find (fnmatch filename) (ignore_files config) of
        Some pattern \<Rightarrow> Inr (True, MatchesIgnorePattern pattern)
      | None \<Rightarrow>
          if ext \<in> set (ignore_extensions config) then Inr (True, IgnoredExtension ext)
          else case stat_size of
            None \<Rightarrow> Inr (True, CannotStat)
          | Some sz \<Rightarrow>
              (case size_exceeds sz (max_file_size config) of
                 Inl e \<Rightarrow> Inl e
               | Inr True \<Rightarrow> Inr (True, FileTooLarge (max_file_size config))
               | Inr False \<Rightarrow> Inr (False, NoReason)))"

definition should_ignore_dir :: "ProjectConfig \<Rightarrow> ignore_rule list \<Rightarrow> path \<Rightarrow> bool \<times> reason" where
  "should_ignore_dir config gitignore rel_path =
     (let dirname = last rel_path in
      if \<not> truthy (include_hidden config) \<and> startswith dirname ''.''
        then (True, HiddenDirectory)
      else if should_ignore gitignore (join_path rel_path)
        then (True, InGitignore)
      else if dirname \<in> set (ignore_dirs config)
        then (True, InIgnoreList dirname)
      else (False, NoReason))"

definition should_include_file :: "ProjectConfig \<Rightarrow> path \<Rightarrow> bool" where
  "should_include_file config rel_path =
     (let filename = last rel_path; ext = lower (suffix filename) in
      if filename \<in> set (config_files config) then True
      else if ext \<in> set (code_extensions config) then True
      else if ext = [] \<and> \<not> startswith filename ''.'' then True
      else False)"

section \<open>The scanner: the walk\<close>

text \<open>
  \<open>os.walk\<close>, top down: the files of a directory in listing order, then the walk of each
  subdirectory that \<open>should_ignore_dir\<close> does not remove from \<open>dirs\<close>, in listing order. A
  directory that cannot be listed yields nothing. The result is the sequence of files that
  the body of the loop in \<open>scan_directory\<close> sees.
\<close>

fun walk :: "ProjectConfig \<Rightarrow> ignore_rule list \<Rightarrow> path \<Rightarrow> fsnode \<Rightarrow> (path \<times> fsnode) list" where
  "walk config gitignore dir (File sz bs tx) = []"
| "walk config gitignore dir (Dir ok es) =
     (if \<not> ok then []
      else map (\<lambda>e. (dir @ [fst e], snd e)) (filter (\<lambda>e. is_file (snd e)) es)
         @ concat (map (\<lambda>e. if is_dir (snd e)
                                \<and> \<not> fst (should_ignore_dir config gitignore (dir @ [fst e]))
                             then walk config gitignore (dir @ [fst e]) (snd e) else []) es))"

text \<open>
  The body of the loop: an ignored file is counted as skipped, a file that is not ignored
  and is to be included is queued. An exception of \<open>should_ignore_file\<close> ends the scan.
\<close>

fun process_files ::
  "ProjectConfig \<Rightarrow> ignore_rule list \<Rightarrow> (path \<times> fsnode) list \<Rightarrow> (path \<times> fsnode) list \<times> nat \<Rightarrow>
   py_error + ((path \<times> fsnode) list \<times> nat)" where
  "process_files config gitignore [] acc = Inr acc"
| "process_files config gitignore (pf # rest) acc =
     (case should_ignore_file config gitignore (fst pf) (st_size (snd pf)) of
        Inl e \<Rightarrow> Inl e
      | Inr (True, r) \<Rightarrow> process_files config gitignore rest (fst acc, snd acc + 1)
      | Inr (False, r) \<Rightarrow>
          process_files config gitignore rest
            (if should_include_file config (fst pf) then fst acc @ [pf] else fst acc, snd acc))"

text \<open>
  The walk phase of \<open>scan_directory\<close>: the queue sorted by path (\<open>files_to_process.sort()\<close>
  compares paths component by component) and the number of files skipped.
\<close>

definition walk_phase ::
  "ProjectConfig \<Rightarrow> ignore_rule list \<Rightarrow> fsnode \<Rightarrow> py_error + ((path \<times> fsnode) list \<times> nat)" where
  "walk_phase config gitignore project_dir =
     (case process_files config gitignore (walk config gitignore [] project_dir) ([], 0) of
        Inl e \<Rightarrow> Inl e
      | Inr (queue, skipped) \<Rightarrow> Inr (sort_key fst queue, skipped))"

section \<open>The scanner: the tree\<close>

text \<open>
  A line of the tree: the prefix inherited from the directories above, whether the entry
  is the last of its directory, its name, and whether it is a directory. The characters
  that draw the tree are written as the bytes of their UTF-8 encoding.
\<close>

datatype tree_line =
  TreeLine (line_prefix: string) (line_last: bool) (line_name: string) (line_is_dir: bool)

definition CONNECTOR_LAST :: string where
  "CONNECTOR_LAST =
     [CHR 0xE2, CHR 0x94, CHR 0x94, CHR 0xE2, CHR 0x94, CHR 0x80, CHR 0xE2, CHR 0x94, CHR 0x80,
      CHR 0x20]"

definition CONNECTOR_MIDDLE :: string where
  "CONNECTOR_MIDDLE =
     [CHR 0xE2, CHR 0x94, CHR 0x9C, CHR 0xE2, CHR 0x94, CHR 0x80, CHR 0xE2, CHR 0x94, CHR 0x80,
      CHR 0x20]"

definition EXTENSION_LAST :: string where
  "EXTENSION_LAST = ''    ''"

definition EXTENSION_MIDDLE :: string where
  "EXTENSION_MIDDLE = [CHR 0xE2, CHR 0x94, CHR 0x82, CHR 0x20, CHR 0x20, CHR 0x20]"

definition render_line :: "tree_line \<Rightarrow> string" where
  "render_line l =
     line_prefix l @ (if line_last l then CONNECTOR_LAST else CONNECTOR_MIDDLE) @ line_name l
       @ (if line_is_dir l then ''/'' else '''') @ [LF]"

text \<open>The results of the items of a loop, up to the first exception.\<close>

fun collect :: "(py_error + 'a list) list \<Rightarrow> py_error + 'a list" where
  "collect [] = Inr []"
| "collect (r # rs) =
     (case r of
        Inl e \<Rightarrow> Inl e
      | Inr xs \<Rightarrow> (case collect rs of Inl e \<Rightarrow> Inl e | Inr ys \<Rightarrow> Inr (xs @ ys)))"

lemma entry_smaller: "e \<in> set es \<Longrightarrow> size (snd e) < size (Dir ok es)"
  by (induction es) auto

text \<open>
  \<open>_write_tree\<close>: the entries sorted with directories first and then by name; an entry is
  last when its index is the last of the sorted list, before any entry is left out. A path
  that is not a directory, or a directory that cannot be listed, makes \<open>iterdir\<close> raise
  \<open>OSError\<close> and nothing is written. (The parameter \<open>is_last\<close> of the source is never
  read.)
\<close>

function write_tree ::
  "ProjectConfig \<Rightarrow> ignore_rule list \<Rightarrow> path \<Rightarrow> fsnode \<Rightarrow> string \<Rightarrow> py_error + tree_line list" where
  "write_tree config gitignore dir (File sz bs tx) prefix = Inr []"
| "write_tree config gitignore dir (Dir ok es) prefix =
     (if \<not> ok then Inr []
      else collect (map
        (\<lambda>ie.
           if is_dir (snd (snd ie)) then
             (if fst (should_ignore_dir config gitignore (dir @ [fst (snd ie)])) then Inr []
              else case write_tree config gitignore (dir @ [fst (snd ie)]) (snd (snd ie))
                          (prefix @ (if fst ie = length es - 1 then EXTENSION_LAST
                                     else EXTENSION_MIDDLE)) of
                     Inl e \<Rightarrow> Inl e
                   | Inr sub \<Rightarrow>
                       Inr (TreeLine prefix (fst ie = length es - 1) (fst (snd ie)) True # sub))
           else
             (case should_ignore_file config gitignore (dir @ [fst (snd ie)])
                     (st_size (snd (snd ie))) of
                Inl e \<Rightarrow> Inl e
              | Inr (True, r) \<Rightarrow> Inr []
              | Inr (False, r) \<Rightarrow>
                  Inr [TreeLine prefix (fst ie = length es - 1) (fst (snd ie)) False]))
        (enumerate 0 (sort_key (\<lambda>e. (\<not> is_dir (snd e), fst e)) es))))"
  by pat_completeness auto
termination
proof (relation "measure (\<lambda>(config, gitignore, dir, node, prefix). size node)")
  show "wf (measure (\<lambda>(config, gitignore, dir, node, prefix). size node))"
    by simp
next
  fix config :: ProjectConfig and gitignore :: "ignore_rule list" and dir :: path
    and ok :: bool and es :: "(string \<times> fsnode) list" and prefix :: string
    and ie :: "nat \<times> string \<times> fsnode"
  assume "ie \<in> set (enumerate 0 (sort_key (\<lambda>e. (\<not> is_dir (snd e), fst e)) es))"
  then have "snd ie \<in> set (sort_key (\<lambda>e. (\<not> is_dir (snd e), fst e)) es)"
    by (metis enumerate_eq_zip in_set_zipE prod.collapse)
  then have "snd ie \<in> set es"
    by simp
  then have "size (snd (snd ie)) < size (Dir ok es)"
    by (rule entry_smaller)
  then show "((config, gitignore, dir @ [fst (snd ie)], snd (snd ie),
                prefix @ (if fst ie = length es - 1 then EXTENSION_LAST else EXTENSION_MIDDLE)),
              (config, gitignore, dir, Dir ok es, prefix))
             \<in> measure (\<lambda>(config, gitignore, dir, node, prefix). size node)"
    by simp
qed

section \<open>The scanner: contents and summary\<close>

record stats =
  files_processed :: nat
  files_skipped :: nat
  total_size :: nat
  errors :: nat

text \<open>\<open>_is_binary\<close>: a zero byte among the first 1024 bytes, or any failure to read them.\<close>

definition is_binary :: "fsnode \<Rightarrow> bool" where
  "is_binary f =
     (case rb_bytes f of
        None \<Rightarrow> True
      | Some bytes \<Rightarrow> CHR 0x00 \<in> set (take 1024 bytes))"

definition BINARY_MARKER :: "string \<Rightarrow> string" where
  "BINARY_MARKER rel_path = ''--- '' @ rel_path @ '' (BINARY - SKIPPED) ---'' @ [LF, LF]"

text \<open>One turn of the loop over \<open>files_to_process\<close>: what is written and the counters.\<close>

definition dump_file :: "path \<times> fsnode \<Rightarrow> string \<times> stats \<Rightarrow> string \<times> stats" where
  "dump_file pf acc =
     (let rel_path = join_path (fst pf); out = fst acc; st = snd acc in
      if is_binary (snd pf) then
        (out @ BINARY_MARKER rel_path, st \<lparr> files_skipped := files_skipped st + 1 \<rparr>)
      else case r_text (snd pf) of
        Inl msg \<Rightarrow>
          (out @ ''--- '' @ rel_path @ '' (ERROR) ---'' @ [LF]
               @ ''Error reading file: '' @ msg @ [LF, LF],
           st \<lparr> errors := errors st + 1 \<rparr>)
      | Inr content \<Rightarrow>
          (out @ ''--- '' @ rel_path @ '' ---'' @ [LF, LF]
               @ content @ (if endswith content [LF] then [] else [LF])
               @ [LF] @ replicate 40 (CHR ''='') @ '' End of '' @ rel_path @ '' ''
               @ replicate 40 (CHR ''='') @ [LF, LF],
           st \<lparr> files_processed := files_processed st + 1,
                total_size := total_size st + length content \<rparr>))"

fun dump_files :: "(path \<times> fsnode) list \<Rightarrow> string \<times> stats \<Rightarrow> string \<times> stats" where
  "dump_files [] acc = acc"
| "dump_files (pf # rest) acc = dump_files rest (dump_file pf acc)"

definition banner :: string where
  "banner = replicate 80 (CHR ''='') @ [LF]"

definition header_text :: "ProjectConfig \<Rightarrow> string \<Rightarrow> nat \<Rightarrow> string" where
  "header_text config project_path n =
     banner @ '' Project: '' @ name config @ [LF]
     @ '' Type: '' @ project_type config @ [LF]
     @ '' Path: '' @ project_path @ [LF]
     @ '' Files to process: '' @ str_nat n @ [LF]
     @ banner @ [LF]"

definition summary_text :: "stats \<Rightarrow> py_error + string" where
  "summary_text st =
     (case format_size (total_size st) of
        Inl e \<Rightarrow> Inl e
      | Inr size_text \<Rightarrow>
          Inr ([LF] @ banner @ '' Summary'' @ [LF] @ banner
               @ ''Files processed: '' @ str_nat (files_processed st) @ [LF]
               @ ''Files skipped: '' @ str_nat (files_skipped st) @ [LF]
               @ ''Total size: '' @ size_text @ [LF]
               @ ''Errors: '' @ str_nat (errors st) @ [LF]
               @ banner))"

text \<open>
  \<open>scan_directory\<close> for the project directory \<open>project_dir\<close>, printed as \<open>project_path\<close>:
  what is written to the output file and the statistics, or the exception that ends the
  scan.
\<close>

definition scan_directory ::
  "ProjectConfig \<Rightarrow> ignore_rule list \<Rightarrow> string \<Rightarrow> fsnode \<Rightarrow> py_error + (string \<times> stats)" where
  "scan_directory config gitignore project_path project_dir =
     (case walk_phase config gitignore project_dir of
        Inl e \<Rightarrow> Inl e
      | Inr (files_to_process, skipped) \<Rightarrow>
          (case write_tree config gitignore [] project_dir [] of
             Inl e \<Rightarrow> Inl e
           | Inr tree \<Rightarrow>
               (let start =
                      header_text config project_path (length files_to_process)
                      @ banner @ '' Project Structure'' @ [LF] @ banner @ [LF]
                      @ concat (map render_line tree) @ [LF, LF]
                      @ banner @ '' File Contents'' @ [LF] @ banner @ [LF];
                    dumped =
                      dump_files files_to_process
                        (start, \<lparr> files_processed = 0, files_skipped = skipped,
                                  total_size = 0, errors = 0 \<rparr>)
                in case summary_text (snd dumped) of
                     Inl e \<Rightarrow> Inl e
                   | Inr summary \<Rightarrow> Inr (fst dumped @ summary, snd dumped))))"

text \<open>The length of the text of a file, as \<open>len(content)\<close> counts it (0 when the read raises).\<close>

definition text_length :: "fsnode \<Rightarrow> nat" where
  "text_length f = (case r_text f of Inl msg \<Rightarrow> 0 | Inr content \<Rightarrow> length content)"

section \<open>The driver\<close>

text \<open>
  What \<open>main\<close> takes from its environment: the absolute path of the input root and the
  root itself (\<open>None\<close> when it does not exist; the directory above it can be searched),
  whether the output directory can be created, whether the output file of a project can be
  opened for writing, the parser of \<open>json.load\<close>, the recursive search of \<open>pathlib\<close> in a
  project, and the text of the \<open>.gitignore\<close> of a project that was iterated before its read
  raised.
\<close>

record run_env =
  env_input_path :: string
  env_input_dir :: "fsnode option"
  env_output_dir_ok :: bool
  env_can_write :: "string \<Rightarrow> bool"
  env_parse_json :: "string \<Rightarrow> json option"
  env_rglob :: "string \<Rightarrow> string \<Rightarrow> bool"
  env_gitignore_partial :: "string \<Rightarrow> string"

text \<open>
  Reading the text of the entry \<open>filename\<close> of a project directory after the test
  \<open>exists()\<close>, which may raise: no such entry, the text, or a failure to open or read it,
  with the text \<open>partial\<close> read before the failure (none when the entry is a directory,
  which cannot be opened).
\<close>

definition read_entry :: "fsnode \<Rightarrow> string \<Rightarrow> string \<Rightarrow> py_error + string file_read" where
  "read_entry project_dir filename partial =
     (case path_exists (Some project_dir) filename of
        Inl e \<Rightarrow> Inl e
      | Inr False \<Rightarrow> Inr NoFile
      | Inr True \<Rightarrow>
          (case map_of (entries project_dir) filename of
             Some (File sz bs (Inr s)) \<Rightarrow> Inr (Content s)
           | Some (File sz bs (Inl msg)) \<Rightarrow> Inr (ReadFailed partial)
           | _ \<Rightarrow> Inr (ReadFailed [])))"

definition as_json_file :: "(string \<Rightarrow> json option) \<Rightarrow> string file_read \<Rightarrow> json_file" where
  "as_json_file parse src =
     (case src of
        Content s \<Rightarrow> (case parse s of None \<Rightarrow> Malformed | Some data \<Rightarrow> Parsed data)
      | _ \<Rightarrow> CannotRead)"

text \<open>
  One turn of the loop of \<open>main\<close> for the project \<open>project_name\<close>. The outer result is an
  exception raised outside the \<open>try\<close> block, which nothing catches; the inner result is
  that of the \<open>try\<close> block: the output file and the statistics of a project that counts
  as scanned successfully, or the exception the block catches.
\<close>

definition scan_project ::
  "run_env \<Rightarrow> string \<Rightarrow> fsnode \<Rightarrow> py_error + (py_error + string \<times> stats)" where
  "scan_project env project_name project_dir =
     (case detect_project_types (env_rglob env project_name) (Some project_dir) of
        Inl e \<Rightarrow> Inl e
      | Inr project_types \<Rightarrow>
          (case read_entry project_dir ''.scanner-config.json'' [] of
             Inl e \<Rightarrow> Inl e
           | Inr config_src \<Rightarrow>
               (case read_entry project_dir ''.gitignore''
                       (env_gitignore_partial env project_name) of
                  Inl e \<Rightarrow> Inl e
                | Inr gitignore_src \<Rightarrow>
                    (let default = load_default_config project_name project_types;
                         config =
                           (if config_src = NoFile then default
                            else fst (load_from_file
                                        (as_json_file (env_parse_json env) config_src) default));
                         gitignore = fst (GitignoreParser gitignore_src)
                     in if \<not> env_can_write env project_name then Inr (Inl OSError)
                        else
                          (case scan_directory config gitignore
                                  (env_input_path env @ ''/'' @ project_name) project_dir of
                             Inl e \<Rightarrow> Inr (Inl e)
                           | Inr (written, st) \<Rightarrow>
                               (case format_size (total_size st) of
                                  Inl e \<Rightarrow> Inr (Inl e)
                                | Inr size_text \<Rightarrow> Inr (Inr (written, st))))))))"

text \<open>The loop over the projects: it stops at the first exception nothing catches.\<close>

fun run_projects ::
  "run_env \<Rightarrow> (string \<times> fsnode) list \<Rightarrow> (string \<times> (py_error + string \<times> stats)) list \<Rightarrow>
   (string \<times> (py_error + string \<times> stats)) list \<times> py_error option" where
  "run_projects env [] scanned = (scanned, None)"
| "run_projects env (p # ps) scanned =
     (case scan_project env (fst p) (snd p) of
        Inl e \<Rightarrow> (scanned, Some e)
      | Inr r \<Rightarrow> run_projects env ps (scanned @ [(fst p, r)]))"

text \<open>
  How the process ends: \<open>sys.exit(main())\<close> with the value \<open>main\<close> returns, or an
  exception nothing catches, which ends the interpreter with status 1.
\<close>

datatype outcome = Returned nat | Uncaught py_error

fun exit_status :: "outcome \<Rightarrow> nat" where
  "exit_status (Returned n) = n"
| "exit_status (Uncaught e) = 1"

text \<open>The running total of \<open>total_size\<close> over the projects scanned successfully.\<close>

definition total_bytes :: "(string \<times> (py_error + string \<times> stats)) list \<Rightarrow> nat" where
  "total_bytes scanned =
     sum_list (map (\<lambda>r. case snd r of Inl e \<Rightarrow> 0 | Inr (written, st) \<Rightarrow> total_size st) scanned)"

text \<open>
  What a run leaves: how the process ends, whether the input root was created, and the
  projects the loop came to, each with the result of its \<open>try\<close> block.
\<close>

record run_result =
  run_outcome :: outcome
  input_dir_created :: bool
  run_scanned :: "(string \<times> (py_error + string \<times> stats)) list"

definition main :: "run_env \<Rightarrow> run_result" where
  "main env =
     (case env_input_dir env of
        None \<Rightarrow>
          \<lparr> run_outcome = Returned 1, input_dir_created = True, run_scanned = [] \<rparr>
      | Some input \<Rightarrow>
          if \<not> env_output_dir_ok env then
            \<lparr> run_outcome = Uncaught OSError, input_dir_created = False, run_scanned = [] \<rparr>
          else if is_file input then
            \<lparr> run_outcome = Uncaught OSError, input_dir_created = False, run_scanned = [] \<rparr>
          else if \<not> accessible input then
            \<lparr> run_outcome = Uncaught PermissionError, input_dir_created = False,
              run_scanned = [] \<rparr>
          else
            (let projects = filter (\<lambda>d. is_dir (snd d)) (entries input) in
             if projects = [] then
               \<lparr> run_outcome = Returned 1, input_dir_created = False, run_scanned = [] \<rparr>
             else
               (case run_projects env (sort_key fst projects) [] of
                  (scanned, Some e) \<Rightarrow>
                    \<lparr> run_outcome = Uncaught e, input_dir_created = False,
                      run_scanned = scanned \<rparr>
                | (scanned, None) \<Rightarrow>
                    (let success_count = length (filter (\<lambda>r. \<not> isl (snd r)) scanned) in
                     case format_size (total_bytes scanned) of
                       Inl e \<Rightarrow>
                         \<lparr> run_outcome = Uncaught e, input_dir_created = False,
                           run_scanned = scanned \<rparr>
                     | Inr size_text \<Rightarrow>
                         \<lparr> run_outcome = Returned (if 0 < success_count then 0 else 1),
                           input_dir_created = False, run_scanned = scanned \<rparr>))))"

section \<open>Example inputs\<close>


text \<open>
  A configuration that lists \<open>.png\<close> among the code extensions as well, and a project
  with an image and a script.
\<close>

definition png_config :: ProjectConfig where
  "png_config = (load_default_config ''demo'' []) \<lparr> code_extensions := [''.png'', ''.py''] \<rparr>"

definition png_project :: fsnode where
  "png_project =
     Dir True
       [(''logo.PNG'', File (Some 3) (Some ''abc'') (Inr ''abc'')),
        (''main.py'', File (Some 5) (Some ''x = 1'') (Inr ''x = 1''))]"

text \<open>
  A project with hidden files that the configuration names as configuration files, and
  the rules of a \<open>.gitignore\<close> that tries to bring them back.
\<close>

definition hidden_project :: fsnode where
  "hidden_project =
     Dir True
       [(''.gitignore'', File (Some 12) (Some ''!.gitignore'') (Inr ''!.gitignore'')),
        (''.eslintrc.js'', File (Some 2) (Some ''{}'') (Inr ''{}'')),
        (''README.md'', File (Some 4) (Some ''text'') (Inr ''text''))]"

definition hidden_rules :: "ignore_rule list" where
  "hidden_rules = [(''.gitignore'', True), (''.eslintrc.js'', True)]"

text \<open>
  A file with a zero byte among its first bytes, a file that cannot be read, and the
  counters at zero.
\<close>

definition zero_byte_file :: fsnode where
  "zero_byte_file = File (Some 3) (Some [CHR ''a'', CHR 0x00, CHR ''b'']) (Inr ''ab'')"

definition unreadable_file :: fsnode where
  "unreadable_file = File (Some 3) None (Inl ''Permission denied'')"

definition zero_stats :: stats where
  "zero_stats = \<lparr> files_processed = 0, files_skipped = 0, total_size = 0, errors = 0 \<rparr>"



text \<open>A project that holds one file, with a zero byte in it.\<close>

definition binary_project :: fsnode where
  "binary_project = Dir True [(''blob'', zero_byte_file)]"

text \<open>
  A run over two projects: \<open>a\<close> holds one Python file, \<open>b\<close> is a directory the process
  may not search.
\<close>

definition plain_project :: fsnode where
  "plain_project = Dir True [(''main.py'', File (Some 6) (Some ''x = 1'') (Inr ''x = 1''))]"

definition closed_project :: fsnode where
  "closed_project = Dir False [(''main.py'', File (Some 6) (Some ''y = 2'') (Inr ''y = 2''))]"

definition two_projects_env :: run_env where
  "two_projects_env =
     \<lparr> env_input_path = ''/input'',
       env_input_dir = Some (Dir True [(''b'', closed_project), (''a'', plain_project)]),
       env_output_dir_ok = True,
       env_can_write = (\<lambda>project_name. True),
       env_parse_json = (\<lambda>s. None),
       env_rglob = (\<lambda>project_name pattern. False),
       env_gitignore_partial = (\<lambda>project_name. []) \<rparr>"

section \<open>Properties of the ignore-pattern matcher\<close>

lemma should_ignore_loop_append:
  "should_ignore_loop ig (ps @ [(pat, neg)]) path =
     (if fnmatch path pat \<or> fnmatch (basename path) pat then \<not> neg
      else should_ignore_loop ig ps path)"
  by (induction ig ps path rule: should_ignore_loop.induct) simp_all

lemma should_ignore_loop_last_match:
  "should_ignore_loop ig ps path =
     (case find (rule_matches path) (rev ps) of None \<Rightarrow> ig | Some r \<Rightarrow> \<not> snd r)"
proof (induction ps arbitrary: ig rule: rev_induct)
  case Nil
  show ?case by simp
next
  case (snoc r ps)
  obtain pat neg where r: "r = (pat, neg)" by (cases r)
  show ?case
    unfolding r should_ignore_loop_append
    by (simp add: snoc.IH rule_matches_def)
qed

lemma load_foo_then_not_foo:
  "fst (GitignoreParser (Content (''foo.txt'' @ [LF] @ ''!foo.txt'' @ [LF]))) =
     [(''foo.txt'', False), (''foo.txt'', True)]"
  by (simp add: GitignoreParser_def load_def file_lines_def LF_def CR_def parse_line_def
      strip_def is_space_def startswith_def)

lemma fnmatch_foo_txt: "fnmatch ''foo.txt'' ''foo.txt''"
  by (simp add: fnmatch_def)

text \<open>
  Claim C1. \<open>should_ignore\<close> goes through the patterns in file order and every pattern
  that matches the relative path or its base name sets the flag to \<open>not is_negation\<close>:
  appending a rule overrides the result exactly when the rule matches, so the answer is
  that of the last matching rule (and \<open>False\<close> when no rule matches). A file
  \<open>.gitignore\<close> with the lines \<open>foo.txt\<close> and \<open>!foo.txt\<close> loads as these two rules
  and \<open>foo.txt\<close> is not ignored.
\<close>

theorem should_ignore_last_match_wins:
  "should_ignore (ps @ [(pat, neg)]) path =
     (if fnmatch path pat \<or> fnmatch (basename path) pat then \<not> neg
      else should_ignore ps path)
   \<and> should_ignore ps path =
     (case find (rule_matches path) (rev ps) of None \<Rightarrow> False | Some r \<Rightarrow> \<not> snd r)
   \<and> fst (GitignoreParser (Content (''foo.txt'' @ [LF] @ ''!foo.txt'' @ [LF]))) =
       [(''foo.txt'', False), (''foo.txt'', True)]
   \<and> should_ignore (fst (GitignoreParser (Content (''foo.txt'' @ [LF] @ ''!foo.txt'' @ [LF]))))
       ''foo.txt'' = False"
proof (intro conjI)
  show "should_ignore (ps @ [(pat, neg)]) path =
     (if fnmatch path pat \<or> fnmatch (basename path) pat then \<not> neg
      else should_ignore ps path)"
    by (cases "ps = []") (simp_all add: should_ignore_def should_ignore_loop_append)
  show "should_ignore ps path =
     (case find (rule_matches path) (rev ps) of None \<Rightarrow> False | Some r \<Rightarrow> \<not> snd r)"
    by (cases "ps = []") (simp_all add: should_ignore_def should_ignore_loop_last_match)
  show "fst (GitignoreParser (Content (''foo.txt'' @ [LF] @ ''!foo.txt'' @ [LF]))) =
       [(''foo.txt'', False), (''foo.txt'', True)]"
    by (rule load_foo_then_not_foo)
  show "should_ignore (fst (GitignoreParser (Content (''foo.txt'' @ [LF] @ ''!foo.txt'' @ [LF]))))
       ''foo.txt'' = False"
    unfolding load_foo_then_not_foo
    by (simp add: should_ignore_def fnmatch_foo_txt)
qed

section \<open>Properties of the size formatting\<close>

lemma str_nat_digit: "n < 10 \<Longrightarrow> str_nat n = [digit_char n]"
  by (simp add: str_nat.simps)

lemma str_nat_more: "10 \<le> n \<Longrightarrow> str_nat n = str_nat (n div 10) @ [digit_char (n mod 10)]"
  by (subst str_nat.simps) simp

lemmas str_nat_eval = str_nat_digit str_nat_more digit_char_def

lemma bit_length_zero: "bit_length 0 = 0"
  by (simp add: bit_length.simps)

lemma bit_length_pos: "0 < n \<Longrightarrow> bit_length n = Suc (bit_length (n div 2))"
  by (subst bit_length.simps) simp

lemma round_half_even_fraction:
  assumes "0 < b"
  shows "round_half_even (of_nat a / of_nat b) =
           (if 2 * (a mod b) < b then int (a div b)
            else if b < 2 * (a mod b) then int (a div b) + 1
            else if even (a div b) then int (a div b) else int (a div b) + 1)"
proof -
  have fl: "\<lfloor>(of_nat a / of_nat b :: rat)\<rfloor> = int (a div b)"
    by (simp add: floor_divide_of_nat_eq)
  have "(of_nat a :: rat) = of_nat (a div b * b + a mod b)"
    by simp
  also have "\<dots> = of_nat (a div b) * of_nat b + of_nat (a mod b)"
    by (simp only: of_nat_add of_nat_mult)
  finally have "(of_nat a / of_nat b :: rat) = of_nat (a div b) + of_nat (a mod b) / of_nat b"
    using assms by (simp add: field_simps)
  then have r: "(of_nat a / of_nat b :: rat) - of_int (int (a div b)) = of_nat (a mod b) / of_nat b"
    by simp
  have lt: "((of_nat (a mod b) / of_nat b :: rat) < 1 / 2) = (2 * (a mod b) < b)"
  proof -
    have "((of_nat (a mod b) / of_nat b :: rat) < 1 / 2) = ((of_nat (2 * (a mod b)) :: rat) < of_nat b)"
      using assms by (simp add: field_simps)
    then show ?thesis by (simp only: of_nat_less_iff)
  qed
  have gt: "((1 / 2 :: rat) < of_nat (a mod b) / of_nat b) = (b < 2 * (a mod b))"
  proof -
    have "((1 / 2 :: rat) < of_nat (a mod b) / of_nat b) = ((of_nat b :: rat) < of_nat (2 * (a mod b)))"
      using assms by (simp add: field_simps)
    then show ?thesis by (simp only: of_nat_less_iff)
  qed
  show ?thesis
    unfolding round_half_even_def Let_def fl r lt gt by simp
qed


lemma round_half_even_numeral_fraction:
  "round_half_even (numeral a / numeral b) =
     (if 2 * (numeral a mod numeral b) < (numeral b :: nat) then int (numeral a div numeral b)
      else if (numeral b :: nat) < 2 * (numeral a mod numeral b) then int (numeral a div numeral b) + 1
      else if even (numeral a div numeral b :: nat) then int (numeral a div numeral b)
      else int (numeral a div numeral b) + 1)"
  using round_half_even_fraction [of "numeral b" "numeral a"] by simp

lemma round_half_even_numeral: "round_half_even (numeral a) = numeral a"
  by (simp add: round_half_even_def)

lemma round_half_even_zero: "round_half_even 0 = 0"
  by (simp add: round_half_even_def)

lemmas fmt_eval =
  fmt_2f_def round_half_even_numeral_fraction round_half_even_numeral round_half_even_zero
  str_nat_eval Let_def

lemma bit_length_le: "n < 2 ^ k \<Longrightarrow> bit_length n \<le> k"
proof (induction k arbitrary: n)
  case 0
  then show ?case by (simp add: bit_length_zero)
next
  case (Suc k)
  show ?case
  proof (cases "n = 0")
    case True
    then show ?thesis by (simp add: bit_length_zero)
  next
    case False
    from Suc.prems have "n div 2 < 2 ^ k" by simp
    from Suc.IH [OF this] False show ?thesis
      by (simp add: bit_length_pos)
  qed
qed

lemma bit_length_upper: "n < 2 ^ bit_length n"
proof (induction n rule: bit_length.induct)
  case (1 n)
  show ?case
  proof (cases "n = 0")
    case True
    then show ?thesis by (simp add: bit_length_zero)
  next
    case False
    with 1 have "n div 2 < 2 ^ bit_length (n div 2)" by simp
    then have "n < 2 * 2 ^ bit_length (n div 2)" by linarith
    with False show ?thesis by (simp add: bit_length_pos)
  qed
qed

lemma bit_length_lower: "0 < n \<Longrightarrow> 2 ^ (bit_length n - 1) \<le> n"
proof (induction n rule: bit_length.induct)
  case (1 n)
  show ?case
  proof (cases "n div 2 = 0")
    case True
    with "1.prems" have "n = 1" by (simp add: div_eq_0_iff) 
    then show ?thesis by (simp add: bit_length_pos bit_length_zero)
  next
    case False
    with 1 have ih: "2 ^ (bit_length (n div 2) - 1) \<le> n div 2" by simp
    from False have "0 < bit_length (n div 2)" by (simp add: bit_length_pos)
    then have "(2::nat) ^ bit_length (n div 2) = 2 * 2 ^ (bit_length (n div 2) - 1)"
      by (cases "bit_length (n div 2)") simp_all
    with ih have "2 ^ bit_length (n div 2) \<le> 2 * (n div 2)" by simp
    also have "\<dots> \<le> n" by simp
    finally show ?thesis using "1.prems" by (simp add: bit_length_pos)
  qed
qed

lemma round_to_double_exact: "n < 2 ^ 53 \<Longrightarrow> round_to_double n = n"
  using bit_length_le [of n 53] by (simp add: round_to_double_def)

lemma round_to_double_lower:
  assumes "2 ^ 53 \<le> n"
  shows "2 ^ 52 \<le> round_to_double n"
proof -
  define e where "e = bit_length n - 53"
  define q where "q = n div 2 ^ e"
  from assms bit_length_upper [of n] have "(2::nat) ^ 53 < 2 ^ bit_length n"
    by linarith
  then have bl: "53 < bit_length n"
    using power_less_imp_less_exp [of "2::nat" 53 "bit_length n"] by simp
  then have "bit_length n - 1 = 52 + e"
    by (simp add: e_def)
  with bit_length_lower [of n] assms have "(2::nat) ^ (52 + e) \<le> n"
    by simp
  then have "2 ^ 52 * 2 ^ e \<le> n"
    by (simp add: power_add)
  then have q52: "2 ^ 52 \<le> q"
    by (simp add: q_def less_eq_div_iff_mult_less_eq)
  have "q * 2 ^ e \<le> round_to_double n"
    by (simp add: round_to_double_def Let_def e_def q_def)
  moreover have "2 ^ 52 * 1 \<le> q * 2 ^ e"
    using q52 by (intro mult_le_mono) simp_all
  ultimately show ?thesis by simp
qed

lemma round_to_double_below_iff:
  assumes "t \<le> 2 ^ 52"
  shows "(round_to_double n < t) = (n < t)"
proof (cases "n < 2 ^ 53")
  case True
  then show ?thesis by (simp add: round_to_double_exact)
next
  case False
  then have "2 ^ 52 \<le> round_to_double n"
    by (intro round_to_double_lower) simp
  with assms False show ?thesis by simp
qed


lemmas format_size_eval = format_size_def below_1024_def to_float_def format_2f_def

lemma round_to_double_tie: "round_to_double 9007336693694465 = 9007336693694464"
  by (simp add: round_to_double_def bit_length_pos bit_length_zero Let_def)


lemma format_size_ladder:
  "format_size n =
     (if n < 1024 then Inr (fmt_2f (of_nat n) @ '' B'')
      else if 2 ^ 1024 \<le> round_to_double n then Inl OverflowError
      else if n < 1024 ^ 2 then Inr (fmt_2f (of_nat (round_to_double n) / 1024) @ '' KB'')
      else if n < 1024 ^ 3 then Inr (fmt_2f (of_nat (round_to_double n) / 1024 ^ 2) @ '' MB'')
      else if n < 1024 ^ 4 then Inr (fmt_2f (of_nat (round_to_double n) / 1024 ^ 3) @ '' GB'')
      else Inr (fmt_2f (of_nat (round_to_double n) / 1024 ^ 4) @ '' TB''))"
proof -
  define D where "D = round_to_double n"
  show ?thesis
  proof (cases "n < 1024")
    case True
    then have "round_to_double n = n"
      by (intro round_to_double_exact) simp
    with True show ?thesis
      by (simp add: format_size_def below_1024_def to_float_def format_2f_def)
  next
    case False
    show ?thesis
    proof (cases "2 ^ 1024 \<le> D")
      case True
      with False show ?thesis
        by (simp add: format_size_def below_1024_def to_float_def D_def)
    next
      case no: False
      have t: "(D < 1024 ^ 2) = (n < 1024 ^ 2)" "(D < 1024 ^ 3) = (n < 1024 ^ 3)"
        "(D < 1024 ^ 4) = (n < 1024 ^ 4)"
        unfolding D_def by (rule round_to_double_below_iff, simp)+
      from no False t show ?thesis
        unfolding format_size_def
        by (simp add: below_1024_def to_float_def format_2f_def D_def [symmetric])
    qed
  qed
qed

lemma format_size_exact_ladder:
  assumes "n < 2 ^ 53"
  shows "format_size n =
     Inr (if n < 1024 then fmt_2f (of_nat n) @ '' B''
          else if n < 1024 ^ 2 then fmt_2f (of_nat n / 1024) @ '' KB''
          else if n < 1024 ^ 3 then fmt_2f (of_nat n / 1024 ^ 2) @ '' MB''
          else if n < 1024 ^ 4 then fmt_2f (of_nat n / 1024 ^ 3) @ '' GB''
          else fmt_2f (of_nat n / 1024 ^ 4) @ '' TB'')"
proof -
  from assms have "round_to_double n = n"
    by (rule round_to_double_exact)
  moreover from assms have "\<not> 2 ^ 1024 \<le> n"
    by simp
  ultimately show ?thesis
    by (simp add: format_size_ladder)
qed


lemma bit_length_power: "bit_length (2 ^ k) = Suc k"
  by (induction k) (simp_all add: bit_length_pos bit_length_zero)

lemma round_to_double_limit: "round_to_double (2 ^ 1024) = 2 ^ 1024"
proof -
  have "bit_length (2 ^ 1024) - 53 = 972"
    by (simp only: bit_length_power)
  moreover have "(2::nat) ^ 1024 div 2 ^ 972 = 2 ^ 52"
    by (simp add: power_diff [symmetric])
  moreover have "(2::nat) ^ 1024 mod 2 ^ 972 = 0"
    by (simp add: mod_eq_0_iff_dvd le_imp_power_dvd)
  moreover have "(2::nat) ^ 52 * 2 ^ 972 = 2 ^ 1024"
    by (simp add: power_add [symmetric])
  ultimately show ?thesis
    unfolding round_to_double_def Let_def by simp
qed

text \<open>
  Claim C7, as stated, fails: it says that every byte count is mapped to a string and that
  whatever is left after GB is reported in TB. The first division converts the integer to
  a double, and for \<open>2 ^ 1024\<close> bytes that conversion raises \<open>OverflowError\<close>.
\<close>

theorem format_size_overflow: "format_size (2 ^ 1024) = Inl OverflowError"
  using format_size_ladder [of "2 ^ 1024"] round_to_double_limit by simp

text \<open>
  Claim C7, amended. \<open>format_size\<close> prints two decimals and a binary unit: 1536 bytes
  are \<open>1.50 KB\<close>, 0 bytes are \<open>0.00 B\<close>, \<open>1024 ^ 3\<close> bytes are \<open>1.00 GB\<close>. For every
  size the value is divided by 1024 once for each of the units B, KB, MB and GB that it
  exceeds, and whatever is left after GB is printed in TB; below \<open>1024 ^ 4\<close> bytes the
  value printed is the exact quotient, from there on it is the quotient of the double
  nearest to the size (so 9007336693694465 bytes print as \<open>8192.12 TB\<close>), and a size
  whose nearest double would be \<open>2 ^ 1024\<close> or more raises \<open>OverflowError\<close>.
\<close>

theorem format_size_units:
  "format_size 1536 = Inr ''1.50 KB''
   \<and> format_size 0 = Inr ''0.00 B''
   \<and> format_size (1024 ^ 3) = Inr ''1.00 GB''
   \<and> format_size 9007336693694465 = Inr ''8192.12 TB''
   \<and> format_size n =
     (if n < 1024 then Inr (fmt_2f (of_nat n) @ '' B'')
      else if n < 1024 ^ 2 then Inr (fmt_2f (of_nat n / 1024) @ '' KB'')
      else if n < 1024 ^ 3 then Inr (fmt_2f (of_nat n / 1024 ^ 2) @ '' MB'')
      else if n < 1024 ^ 4 then Inr (fmt_2f (of_nat n / 1024 ^ 3) @ '' GB'')
      else if 2 ^ 1024 \<le> round_to_double n then Inl OverflowError
      else Inr (fmt_2f (of_nat (round_to_double n) / 1024 ^ 4) @ '' TB''))"
proof (intro conjI)
  show "format_size 1536 = Inr ''1.50 KB''"
    by (simp add: format_size_eval round_to_double_exact fmt_eval)
  show "format_size 0 = Inr ''0.00 B''"
    by (simp add: format_size_eval round_to_double_exact fmt_eval)
  show "format_size (1024 ^ 3) = Inr ''1.00 GB''"
    by (simp add: format_size_eval round_to_double_exact fmt_eval)
  show "format_size 9007336693694465 = Inr ''8192.12 TB''"
    by (simp add: format_size_eval round_to_double_tie fmt_eval)
  show "format_size n =
     (if n < 1024 then Inr (fmt_2f (of_nat n) @ '' B'')
      else if n < 1024 ^ 2 then Inr (fmt_2f (of_nat n / 1024) @ '' KB'')
      else if n < 1024 ^ 3 then Inr (fmt_2f (of_nat n / 1024 ^ 2) @ '' MB'')
      else if n < 1024 ^ 4 then Inr (fmt_2f (of_nat n / 1024 ^ 3) @ '' GB'')
      else if 2 ^ 1024 \<le> round_to_double n then Inl OverflowError
      else Inr (fmt_2f (of_nat (round_to_double n) / 1024 ^ 4) @ '' TB''))"
  proof (cases "n < 1024 ^ 4")
    case True
    then have "n < 2 ^ 53" by simp
    from format_size_exact_ladder [OF this] True show ?thesis
      by simp
  next
    case False
    then show ?thesis
      by (simp add: format_size_ladder)
  qed
qed

section \<open>Properties of the configuration loader\<close>

lemmas merge_eval =
  load_from_file_def merge_stmts_def merge_key_def py_contains_def py_getitem_def py_set_def
  set_update_def

lemma load_from_file_read_failure_unchanged:
  "load_from_file CannotRead cfg = (cfg, [OSError])
   \<and> load_from_file Malformed cfg = (cfg, [JSONDecodeError])"
  by (simp add: load_from_file_def)

text \<open>
  Claim C4 says that on every error path \<open>load_from_file\<close> warns and returns the
  configuration as it was before the call. The paths for a file that cannot be read and for
  malformed JSON do so (lemma above). The path for a value of the wrong type does not: an
  override file that is well-formed JSON but gives \<open>ignore_dirs\<close> the number 5 makes
  \<open>set(5)\<close> raise \<open>TypeError\<close> after \<open>code_extensions\<close> was merged; the one warning is
  printed and the configuration that comes back holds the new extension, which the
  configuration passed in does not.
\<close>

theorem load_from_file_not_atomic:
  "snd (load_from_file
          (Parsed (JObj [(''code_extensions'', JArr [''.foo'']), (''ignore_dirs'', JNum 5)]))
          (load_default_config ''p'' [])) = [TypeError]
   \<and> ''.foo'' \<in> set (code_extensions (fst (load_from_file
          (Parsed (JObj [(''code_extensions'', JArr [''.foo'']), (''ignore_dirs'', JNum 5)]))
          (load_default_config ''p'' []))))
   \<and> ''.foo'' \<notin> set (code_extensions (load_default_config ''p'' []))"
  by (simp add: merge_eval load_default_config_def)


section \<open>Properties of the project classifier\<close>













section \<open>Properties of the scanner\<close>

lemma process_files_queue:
  "process_files config gitignore files acc = Inr (queue, skipped) \<Longrightarrow>
   pf \<in> set queue \<Longrightarrow>
   pf \<in> set (fst acc)
   \<or> (\<exists>r. should_ignore_file config gitignore (fst pf) (st_size (snd pf)) = Inr (False, r))
      \<and> should_include_file config (fst pf) \<and> pf \<in> set files"
proof (induction files arbitrary: acc)
  case Nil
  then show ?case by simp
next
  case (Cons x files)
  show ?case
  proof (cases "should_ignore_file config gitignore (fst x) (st_size (snd x))")
    case (Inl e)
    with Cons.prems show ?thesis by simp
  next
    case (Inr br)
    obtain b r where br: "br = (b, r)" by (cases br)
    show ?thesis
    proof (cases b)
      case True
      with Inr br Cons.prems(1)
      have "process_files config gitignore files (fst acc, snd acc + 1) = Inr (queue, skipped)"
        by simp
      from Cons.IH [OF this Cons.prems(2)] show ?thesis by auto
    next
      case False
      with Inr br Cons.prems(1)
      have "process_files config gitignore files
              (if should_include_file config (fst x) then fst acc @ [x] else fst acc, snd acc)
            = Inr (queue, skipped)"
        by simp
      from Cons.IH [OF this Cons.prems(2)] Inr br False show ?thesis
        by (auto split: if_splits)
    qed
  qed
qed

lemma walk_phase_queue:
  assumes "walk_phase config gitignore project_dir = Inr (queue, skipped)"
    and "pf \<in> set queue"
  shows "(\<exists>r. should_ignore_file config gitignore (fst pf) (st_size (snd pf)) = Inr (False, r))
         \<and> should_include_file config (fst pf)
         \<and> pf \<in> set (walk config gitignore [] project_dir)"
proof -
  from assms(1) obtain q where
    q: "process_files config gitignore (walk config gitignore [] project_dir) ([], 0)
          = Inr (q, skipped)" and "queue = sort_key fst q"
    by (auto simp: walk_phase_def split: sum.splits)
  with assms(2) have "pf \<in> set q" by simp
  from process_files_queue [OF q this] show ?thesis by simp
qed

lemma ignored_extension_ignored:
  assumes "lower (suffix (last rel_path)) \<in> set (ignore_extensions config)"
  shows "\<exists>r. should_ignore_file config gitignore rel_path stat_size = Inr (True, r)"
  using assms by (simp add: should_ignore_file_def Let_def split: option.splits)

text \<open>
  Claim C3. A file whose lower-cased extension is in \<open>ignore_extensions\<close> is ignored by
  \<open>should_ignore_file\<close>, whatever else the configuration says; it is never among the
  files queued for the content dump, also when the extension is in \<open>code_extensions\<close>.
\<close>

theorem ignore_extension_precedes_include:
  assumes "lower (suffix (last rel_path)) \<in> set (ignore_extensions config)"
  shows "(\<exists>r. should_ignore_file config gitignore rel_path stat_size = Inr (True, r))
         \<and> (\<forall>queue skipped f.
               walk_phase config gitignore project_dir = Inr (queue, skipped)
               \<longrightarrow> (rel_path, f) \<notin> set queue)"
proof (intro conjI allI impI)
  show "\<exists>r. should_ignore_file config gitignore rel_path stat_size = Inr (True, r)"
    using assms by (rule ignored_extension_ignored)
next
  fix queue skipped f
  assume w: "walk_phase config gitignore project_dir = Inr (queue, skipped)"
  show "(rel_path, f) \<notin> set queue"
  proof
    assume "(rel_path, f) \<in> set queue"
    from walk_phase_queue [OF w this]
    obtain r where "should_ignore_file config gitignore rel_path (st_size f) = Inr (False, r)"
      by auto
    moreover from ignored_extension_ignored [OF assms]
    obtain r' where "should_ignore_file config gitignore rel_path (st_size f) = Inr (True, r')"
      by blast
    ultimately show False by simp
  qed
qed
lemmas scan_eval =
  walk_phase_def load_default_config_def should_ignore_file_def should_include_file_def
  should_ignore_dir_def suffix_def lower_def lower_char_def LATIN1_UPPER_def LATIN1_LOWER_def
  startswith_def should_ignore_def
  fnmatch_def size_exceeds_def DEFAULT_MAX_FILE_SIZE_def

theorem ignore_extension_precedes_include_witness:
  "lower (suffix (last [''logo.PNG''])) \<in> set (ignore_extensions png_config)
   \<and> lower (suffix (last [''logo.PNG''])) \<in> set (code_extensions png_config)
   \<and> (\<exists>r. should_ignore_file png_config [] [''logo.PNG''] (Some 3) = Inr (True, r))
   \<and> (\<exists>queue skipped. walk_phase png_config [] png_project = Inr (queue, skipped)
        \<and> ([''logo.PNG''], File (Some 3) (Some ''abc'') (Inr ''abc'')) \<notin> set queue)"
proof -
  have h: "lower (suffix (last [''logo.PNG''])) \<in> set (ignore_extensions png_config)"
    by (simp add: png_config_def scan_eval)
  have c: "lower (suffix (last [''logo.PNG''])) \<in> set (code_extensions png_config)"
    by (simp add: png_config_def scan_eval)
  have w: "walk_phase png_config [] png_project =
             Inr ([([''main.py''], File (Some 5) (Some ''x = 1'') (Inr ''x = 1''))], 1)"
    by (simp add: png_config_def png_project_def scan_eval)
  from ignore_extension_precedes_include [OF h, of "[]" "Some 3" png_project] h c w
  show ?thesis by simp
qed

lemma default_include_hidden:
  "include_hidden (load_default_config project_name project_types) = JBool False"
  by (simp add: load_default_config_def Let_def)

lemma default_config_files:
  "''.gitignore'' \<in> set (config_files (load_default_config project_name project_types))
   \<and> ''.eslintrc.js'' \<in> set (config_files (load_default_config project_name project_types))"
  by (simp add: load_default_config_def Let_def)

lemma hidden_file_ignored:
  assumes "\<not> truthy (include_hidden config)" and "startswith (last rel_path) ''.''"
  shows "should_ignore_file config gitignore rel_path stat_size = Inr (True, HiddenFile)"
  using assms by (simp add: should_ignore_file_def Let_def)

text \<open>
  Claim C10. The default configuration has \<open>include_hidden\<close> false and names
  \<open>.gitignore\<close> and \<open>.eslintrc.js\<close> as configuration files. When \<open>include_hidden\<close> is
  false, a file whose name starts with a dot is ignored as a hidden file, whatever the
  rules of \<open>.gitignore\<close> and the rest of the configuration are, and it is never queued for
  the content dump.
\<close>

theorem hidden_file_check_first:
  assumes "\<not> truthy (include_hidden config)" and "startswith (last rel_path) ''.''"
  shows "should_ignore_file config gitignore rel_path stat_size = Inr (True, HiddenFile)
         \<and> (\<forall>queue skipped f.
               walk_phase config gitignore project_dir = Inr (queue, skipped)
               \<longrightarrow> (rel_path, f) \<notin> set queue)
         \<and> include_hidden (load_default_config project_name project_types) = JBool False
         \<and> ''.gitignore'' \<in> set (config_files (load_default_config project_name project_types))
         \<and> ''.eslintrc.js'' \<in> set (config_files (load_default_config project_name project_types))"
proof (intro conjI allI impI)
  show "should_ignore_file config gitignore rel_path stat_size = Inr (True, HiddenFile)"
    using assms by (rule hidden_file_ignored)
next
  fix queue skipped f
  assume w: "walk_phase config gitignore project_dir = Inr (queue, skipped)"
  show "(rel_path, f) \<notin> set queue"
  proof
    assume "(rel_path, f) \<in> set queue"
    from walk_phase_queue [OF w this]
    obtain r where "should_ignore_file config gitignore rel_path (st_size f) = Inr (False, r)"
      by auto
    with hidden_file_ignored [OF assms, of gitignore "st_size f"] show False
      by simp
  qed
qed (simp_all add: default_include_hidden default_config_files)

theorem hidden_file_check_first_witness:
  "\<not> truthy (include_hidden (load_default_config ''demo'' []))
   \<and> startswith (last [''.gitignore'']) ''.''
   \<and> \<not> should_ignore hidden_rules ''.gitignore''
   \<and> should_include_file (load_default_config ''demo'' []) [''.gitignore'']
   \<and> should_ignore_file (load_default_config ''demo'' []) hidden_rules [''.gitignore''] (Some 12)
       = Inr (True, HiddenFile)
   \<and> walk_phase (load_default_config ''demo'' []) hidden_rules hidden_project
       = Inr ([([''README.md''], File (Some 4) (Some ''text'') (Inr ''text''))], 2)"
proof -
  have h1: "\<not> truthy (include_hidden (load_default_config ''demo'' []))"
    by (simp add: default_include_hidden)
  have h2: "startswith (last [''.gitignore'']) ''.''"
    by (simp add: startswith_def)
  have r: "\<not> should_ignore hidden_rules ''.gitignore''"
    by (simp add: hidden_rules_def should_ignore_def fnmatch_def basename_def)
  have i: "should_include_file (load_default_config ''demo'' []) [''.gitignore'']"
    by (simp add: scan_eval)
  have w: "walk_phase (load_default_config ''demo'' []) hidden_rules hidden_project
             = Inr ([([''README.md''], File (Some 4) (Some ''text'') (Inr ''text''))], 2)"
    by (simp add: hidden_project_def hidden_rules_def scan_eval basename_def)
  from hidden_file_check_first [OF h1 h2, of hidden_rules "Some 12"] h1 h2 r i w
  show ?thesis by simp
qed

section \<open>Properties of the content dump\<close>

lemma is_binary_iff:
  "is_binary f =
     (rb_bytes f = None \<or> (\<exists>bytes. rb_bytes f = Some bytes \<and> CHR 0x00 \<in> set (take 1024 bytes)))"
  by (simp add: is_binary_def split: option.splits)

lemma dump_file_binary:
  "is_binary f \<Longrightarrow>
   dump_file (p, f) (out, st) =
     (out @ BINARY_MARKER (join_path p), st \<lparr> files_skipped := files_skipped st + 1 \<rparr>)"
  by (simp add: dump_file_def Let_def)

text \<open>What a file writes does not depend on what was written before, nor on the counters.\<close>

lemma dump_file_appends:
  "fst (dump_file pf (out, st)) = out @ fst (dump_file pf ([], st'))"
  by (simp add: dump_file_def Let_def split: sum.splits)

lemma dump_files_appends:
  "fst (dump_files queue (out, st)) = out @ fst (dump_files queue ([], st'))"
proof (induction queue arbitrary: out st st')
  case Nil
  show ?case by simp
next
  case (Cons pf queue)
  obtain o1 s1 where d1: "dump_file pf (out, st) = (o1, s1)"
    by (cases "dump_file pf (out, st)")
  obtain o2 s2 where d2: "dump_file pf ([], st') = (o2, s2)"
    by (cases "dump_file pf ([], st')")
  from dump_file_appends [of pf out st st'] d1 d2 have o1: "o1 = out @ o2"
    by simp
  have "fst (dump_files queue (o1, s1)) = o1 @ fst (dump_files queue ([], st'))"
    by (rule Cons.IH)
  moreover have "fst (dump_files queue (o2, s2)) = o2 @ fst (dump_files queue ([], st'))"
    by (rule Cons.IH)
  ultimately show ?case
    using d1 d2 o1 by simp
qed

lemma dump_files_append:
  "dump_files (q1 @ q2) acc = dump_files q2 (dump_files q1 acc)"
  by (induction q1 arbitrary: acc) simp_all

text \<open>
  In the output of the dump loop, the marker of a binary file stands right after what the
  files queued before it wrote, and what the files queued after it write follows.
\<close>

lemma dump_files_binary_marker:
  assumes "is_binary f"
  shows "fst (dump_files (q1 @ (p, f) # q2) (out, st)) =
           fst (dump_files q1 (out, st)) @ BINARY_MARKER (join_path p)
             @ fst (dump_files q2 ([], st))"
proof -
  obtain o1 s1 where d1: "dump_files q1 (out, st) = (o1, s1)"
    by (cases "dump_files q1 (out, st)")
  have "fst (dump_files (q1 @ (p, f) # q2) (out, st)) =
          fst (dump_files q2 (dump_file (p, f) (o1, s1)))"
    by (simp add: dump_files_append d1)
  also have "\<dots> = fst (dump_files q2 (o1 @ BINARY_MARKER (join_path p),
                       s1 \<lparr> files_skipped := files_skipped s1 + 1 \<rparr>))"
    by (simp add: dump_file_binary [OF assms])
  also have "\<dots> = (o1 @ BINARY_MARKER (join_path p)) @ fst (dump_files q2 ([], st))"
    by (rule dump_files_appends)
  finally show ?thesis
    by (simp add: d1)
qed

text \<open>What one queued file adds to the counters.\<close>

lemma dump_file_counters:
  "total_size (snd (dump_file pf acc)) =
     total_size (snd acc) + (if is_binary (snd pf) then 0 else text_length (snd pf))
   \<and> files_skipped (snd (dump_file pf acc)) =
     files_skipped (snd acc) + (if is_binary (snd pf) then 1 else 0)"
  by (simp add: dump_file_def Let_def text_length_def split: sum.splits)

lemma dump_files_counters:
  "total_size (snd (dump_files queue acc)) =
     total_size (snd acc) + sum_list (map (\<lambda>pf. text_length (snd pf))
                                        (filter (\<lambda>pf. \<not> is_binary (snd pf)) queue))
   \<and> files_skipped (snd (dump_files queue acc)) =
     files_skipped (snd acc) + length (filter (\<lambda>pf. is_binary (snd pf)) queue)"
proof (induction queue arbitrary: acc)
  case Nil
  show ?case by simp
next
  case (Cons pf queue)
  show ?case
    using Cons.IH [of "dump_file pf acc"] dump_file_counters [of pf acc]
    by simp
qed

text \<open>
  A scan that succeeds wrote the marker of every queued binary file, and its counters are
  those of the dump loop started with the files the walk skipped.
\<close>

lemma scan_directory_binary:
  assumes w: "walk_phase config gitignore project_dir = Inr (queue, skipped)"
    and s: "scan_directory config gitignore project_path project_dir = Inr (written, st)"
    and m: "(p, f) \<in> set queue" and b: "is_binary f"
  shows "(\<exists>pre post. written = pre @ BINARY_MARKER (join_path p) @ post)
         \<and> files_skipped st = skipped + length (filter (\<lambda>pf. is_binary (snd pf)) queue)
         \<and> total_size st = sum_list (map (\<lambda>pf. text_length (snd pf))
                                       (filter (\<lambda>pf. \<not> is_binary (snd pf)) queue))"
proof -
  from s w obtain start summary where
    t: "written = fst (dump_files queue (start,
           \<lparr> files_processed = 0, files_skipped = skipped, total_size = 0, errors = 0 \<rparr>))
         @ summary"
    and st: "st = snd (dump_files queue (start,
           \<lparr> files_processed = 0, files_skipped = skipped, total_size = 0, errors = 0 \<rparr>))"
    by (auto simp: scan_directory_def Let_def split: sum.splits)
  from m obtain q1 q2 where q: "queue = q1 @ (p, f) # q2"
    by (auto dest: split_list)
  from t q dump_files_binary_marker [OF b, of q1 p q2 start]
  have "written =
          fst (dump_files q1 (start,
            \<lparr> files_processed = 0, files_skipped = skipped, total_size = 0, errors = 0 \<rparr>))
          @ BINARY_MARKER (join_path p)
          @ (fst (dump_files q2 ([],
            \<lparr> files_processed = 0, files_skipped = skipped, total_size = 0, errors = 0 \<rparr>))
             @ summary)"
    by simp
  then have "\<exists>pre post. written = pre @ BINARY_MARKER (join_path p) @ post"
    by blast
  with st dump_files_counters [of queue "(start,
           \<lparr> files_processed = 0, files_skipped = skipped, total_size = 0, errors = 0 \<rparr>)"]
  show ?thesis by simp
qed

text \<open>
  Claim C5. A queued file whose binary read fails, or whose first 1024 bytes hold a zero
  byte, is binary. Its turn of the dump loop writes the \<open>BINARY - SKIPPED\<close> marker and
  nothing else, adds one to \<open>files_skipped\<close> and leaves \<open>files_processed\<close>,
  \<open>total_size\<close> and \<open>errors\<close> as they were. In the output of the loop over a queue that
  holds the file, the marker stands between what the files before it and the files after
  it write; over the whole queue \<open>total_size\<close> grows by the text lengths of the files
  that are not binary only, and \<open>files_skipped\<close> by the number of binary files. A scan
  that succeeds with the file in its queue has the marker in the text it wrote, and its
  counters are those of the loop.
\<close>

theorem binary_file_skipped:
  assumes "rb_bytes f = None
           \<or> (\<exists>bytes. rb_bytes f = Some bytes \<and> CHR 0x00 \<in> set (take 1024 bytes))"
  shows "is_binary f
         \<and> dump_file (p, f) (out, st) =
             (out @ ''--- '' @ join_path p @ '' (BINARY - SKIPPED) ---'' @ [LF, LF],
              st \<lparr> files_skipped := files_skipped st + 1 \<rparr>)
         \<and> files_processed (snd (dump_file (p, f) (out, st))) = files_processed st
         \<and> total_size (snd (dump_file (p, f) (out, st))) = total_size st
         \<and> errors (snd (dump_file (p, f) (out, st))) = errors st
         \<and> fst (dump_files (q1 @ (p, f) # q2) (out, st)) =
             fst (dump_files q1 (out, st))
               @ ''--- '' @ join_path p @ '' (BINARY - SKIPPED) ---'' @ [LF, LF]
               @ fst (dump_files q2 ([], st))
         \<and> total_size (snd (dump_files queue (out, st))) =
             total_size st + sum_list (map (\<lambda>pf. text_length (snd pf))
                                         (filter (\<lambda>pf. \<not> is_binary (snd pf)) queue))
         \<and> files_skipped (snd (dump_files queue (out, st))) =
             files_skipped st + length (filter (\<lambda>pf. is_binary (snd pf)) queue)
         \<and> (\<forall>config gitignore project_path project_dir files skipped written st'.
               walk_phase config gitignore project_dir = Inr (files, skipped)
               \<longrightarrow> (p, f) \<in> set files
               \<longrightarrow> scan_directory config gitignore project_path project_dir = Inr (written, st')
               \<longrightarrow> (\<exists>pre post.
                      written = pre @ ''--- '' @ join_path p @ '' (BINARY - SKIPPED) ---'' @ [LF, LF]
                               @ post)
                   \<and> files_skipped st' =
                       skipped + length (filter (\<lambda>pf. is_binary (snd pf)) files)
                   \<and> total_size st' =
                       sum_list (map (\<lambda>pf. text_length (snd pf))
                                   (filter (\<lambda>pf. \<not> is_binary (snd pf)) files)))"
proof -
  from assms have b: "is_binary f"
    by (simp add: is_binary_iff)
  have d: "dump_file (p, f) (out, st) =
             (out @ ''--- '' @ join_path p @ '' (BINARY - SKIPPED) ---'' @ [LF, LF],
              st \<lparr> files_skipped := files_skipped st + 1 \<rparr>)"
    using dump_file_binary [OF b, of p out st] by (simp add: BINARY_MARKER_def)
  have q: "fst (dump_files (q1 @ (p, f) # q2) (out, st)) =
             fst (dump_files q1 (out, st))
               @ ''--- '' @ join_path p @ '' (BINARY - SKIPPED) ---'' @ [LF, LF]
               @ fst (dump_files q2 ([], st))"
    using dump_files_binary_marker [OF b, of q1 p q2 out st] by (simp add: BINARY_MARKER_def)
  have s: "\<forall>config gitignore project_path project_dir files skipped written st'.
             walk_phase config gitignore project_dir = Inr (files, skipped)
             \<longrightarrow> (p, f) \<in> set files
             \<longrightarrow> scan_directory config gitignore project_path project_dir = Inr (written, st')
             \<longrightarrow> (\<exists>pre post.
                    written = pre @ ''--- '' @ join_path p @ '' (BINARY - SKIPPED) ---'' @ [LF, LF]
                             @ post)
                 \<and> files_skipped st' =
                     skipped + length (filter (\<lambda>pf. is_binary (snd pf)) files)
                 \<and> total_size st' =
                     sum_list (map (\<lambda>pf. text_length (snd pf))
                                 (filter (\<lambda>pf. \<not> is_binary (snd pf)) files))"
  proof (intro allI impI)
    fix config gitignore project_path project_dir files skipped written st'
    assume "walk_phase config gitignore project_dir = Inr (files, skipped)"
      and "(p, f) \<in> set files"
      and "scan_directory config gitignore project_path project_dir = Inr (written, st')"
    from scan_directory_binary [OF this(1) this(3) this(2) b]
    show "(\<exists>pre post.
              written = pre @ ''--- '' @ join_path p @ '' (BINARY - SKIPPED) ---'' @ [LF, LF] @ post)
          \<and> files_skipped st' = skipped + length (filter (\<lambda>pf. is_binary (snd pf)) files)
          \<and> total_size st' =
              sum_list (map (\<lambda>pf. text_length (snd pf))
                          (filter (\<lambda>pf. \<not> is_binary (snd pf)) files))"
      by (simp add: BINARY_MARKER_def)
  qed
  show ?thesis
    using b d q s dump_files_counters [of queue "(out, st)"] by simp
qed

lemma binary_project_walk:
  "walk_phase (load_default_config ''demo'' []) [] binary_project =
     Inr ([([''blob''], zero_byte_file)], 0)"
  by (simp add: binary_project_def zero_byte_file_def scan_eval)

lemma binary_project_tree:
  "write_tree (load_default_config ''demo'' []) [] [] binary_project [] =
     Inr [TreeLine [] True ''blob'' False]"
  by (simp add: binary_project_def zero_byte_file_def scan_eval)

lemma binary_project_scan:
  "\<exists>written st'. scan_directory (load_default_config ''demo'' []) [] ''/input/demo'' binary_project
      = Inr (written, st')"
  by (simp add: scan_directory_def binary_project_walk binary_project_tree summary_text_def
      dump_file_def is_binary_def zero_byte_file_def format_size_eval round_to_double_exact)

theorem binary_file_skipped_witness:
  "(\<exists>bytes. rb_bytes zero_byte_file = Some bytes \<and> CHR 0x00 \<in> set (take 1024 bytes))
   \<and> is_binary zero_byte_file
   \<and> is_binary unreadable_file
   \<and> \<not> is_binary (File (Some 5) (Some ''x = 1'') (Inr ''x = 1''))
   \<and> fst (dump_files
        [([''a.py''], File (Some 5) (Some ''x = 1'') (Inr ''x = 1'')),
         ([''bin'', ''blob.dat''], zero_byte_file),
         ([''locked''], unreadable_file)] ([], zero_stats)) =
       fst (dump_files [([''a.py''], File (Some 5) (Some ''x = 1'') (Inr ''x = 1''))]
              ([], zero_stats))
       @ ''--- bin/blob.dat (BINARY - SKIPPED) ---'' @ [LF, LF]
       @ ''--- locked (BINARY - SKIPPED) ---'' @ [LF, LF]
   \<and> total_size (snd (dump_files
        [([''a.py''], File (Some 5) (Some ''x = 1'') (Inr ''x = 1'')),
         ([''bin'', ''blob.dat''], zero_byte_file),
         ([''locked''], unreadable_file)] ([], zero_stats))) = 5
   \<and> (\<exists>written st'.
         scan_directory (load_default_config ''demo'' []) [] ''/input/demo'' binary_project
           = Inr (written, st')
         \<and> (\<exists>pre post. written = pre @ ''--- blob (BINARY - SKIPPED) ---'' @ [LF, LF] @ post)
         \<and> files_skipped st' = 1 \<and> total_size st' = 0)"
proof -
  have h: "\<exists>bytes. rb_bytes zero_byte_file = Some bytes \<and> CHR 0x00 \<in> set (take 1024 bytes)"
    by (simp add: zero_byte_file_def)
  then have h': "rb_bytes zero_byte_file = None
                 \<or> (\<exists>bytes. rb_bytes zero_byte_file = Some bytes
                             \<and> CHR 0x00 \<in> set (take 1024 bytes))"
    by (rule disjI2)
  have u: "is_binary unreadable_file"
    by (simp add: is_binary_def unreadable_file_def)
  have t: "\<not> is_binary (File (Some 5) (Some ''x = 1'') (Inr ''x = 1''))"
    by (simp add: is_binary_def)
  note inst = binary_file_skipped [OF h', of "[''bin'', ''blob.dat'']" "[]" zero_stats
      "[([''a.py''], File (Some 5) (Some ''x = 1'') (Inr ''x = 1''))]"
      "[([''locked''], unreadable_file)]"
      "[([''a.py''], File (Some 5) (Some ''x = 1'') (Inr ''x = 1'')),
        ([''bin'', ''blob.dat''], zero_byte_file),
        ([''locked''], unreadable_file)]"]
  from inst have b: "is_binary zero_byte_file"
    by simp
  from inst have out:
    "fst (dump_files
        [([''a.py''], File (Some 5) (Some ''x = 1'') (Inr ''x = 1'')),
         ([''bin'', ''blob.dat''], zero_byte_file),
         ([''locked''], unreadable_file)] ([], zero_stats)) =
       fst (dump_files [([''a.py''], File (Some 5) (Some ''x = 1'') (Inr ''x = 1''))]
              ([], zero_stats))
       @ ''--- bin/blob.dat (BINARY - SKIPPED) ---'' @ [LF, LF]
       @ ''--- locked (BINARY - SKIPPED) ---'' @ [LF, LF]"
    using u by (simp add: dump_file_binary BINARY_MARKER_def)
  from inst b t u have size:
    "total_size (snd (dump_files
        [([''a.py''], File (Some 5) (Some ''x = 1'') (Inr ''x = 1'')),
         ([''bin'', ''blob.dat''], zero_byte_file),
         ([''locked''], unreadable_file)] ([], zero_stats))) = 5"
    by (simp add: zero_stats_def text_length_def)
  from binary_project_scan obtain written st' where
    sc: "scan_directory (load_default_config ''demo'' []) [] ''/input/demo'' binary_project
           = Inr (written, st')"
    by blast
  from binary_file_skipped [OF h', of "[''blob'']"] binary_project_walk sc b
  have "(\<exists>pre post. written = pre @ ''--- blob (BINARY - SKIPPED) ---'' @ [LF, LF] @ post)
        \<and> files_skipped st' = 1 \<and> total_size st' = 0"
    by simp
  with sc have "\<exists>written st'.
         scan_directory (load_default_config ''demo'' []) [] ''/input/demo'' binary_project
           = Inr (written, st')
         \<and> (\<exists>pre post. written = pre @ ''--- blob (BINARY - SKIPPED) ---'' @ [LF, LF] @ post)
         \<and> files_skipped st' = 1 \<and> total_size st' = 0"
    by blast
  with h b u t out size show ?thesis
    by blast
qed

section \<open>Properties of the walk and of the tree\<close>











section \<open>Properties of the driver\<close>

lemma plain_project_detect:
  "detect_project_types r (Some plain_project) = Inr [''generic'']"
  by (simp add: detect_project_types_def DETECTION_PATTERNS_def path_exists_def path_parts_def
      plain_project_def)

lemma closed_project_detect:
  "detect_project_types r (Some closed_project) = Inl PermissionError"
  by (simp add: detect_project_types_def DETECTION_PATTERNS_def path_exists_def path_parts_def
      closed_project_def)

lemma plain_project_entries:
  "read_entry plain_project ''.scanner-config.json'' partial = Inr NoFile"
  "read_entry plain_project ''.gitignore'' partial = Inr NoFile"
  by (simp_all add: read_entry_def path_exists_def path_parts_def plain_project_def)

lemma plain_project_walk:
  "walk_phase (load_default_config ''a'' [''generic'']) [] plain_project =
     Inr ([([''main.py''], File (Some 6) (Some ''x = 1'') (Inr ''x = 1''))], 0)"
  by (simp add: scan_eval plain_project_def)

lemma plain_project_tree:
  "write_tree (load_default_config ''a'' [''generic'']) [] [] plain_project [] =
     Inr [TreeLine [] True ''main.py'' False]"
  by (simp add: scan_eval plain_project_def)

lemma plain_project_scan:
  "\<exists>written st.
     scan_directory (load_default_config ''a'' [''generic'']) [] ''/input/a'' plain_project
       = Inr (written, st) \<and> total_size st = 5 \<and> files_processed st = 1"
  by (simp add: scan_directory_def plain_project_walk plain_project_tree summary_text_def
      dump_file_def is_binary_def format_size_eval round_to_double_exact)

lemma plain_project_turn:
  "\<exists>written st.
     scan_project two_projects_env ''a'' plain_project = Inr (Inr (written, st))
     \<and> files_processed st = 1"
proof -
  obtain written st where s:
    "scan_directory (load_default_config ''a'' [''generic'']) [] ''/input/a'' plain_project
       = Inr (written, st)" "total_size st = 5" "files_processed st = 1"
    using plain_project_scan by blast
  have "format_size 5 = Inr ''5.00 B''"
    by (simp add: format_size_eval round_to_double_exact fmt_eval)
  with s show ?thesis
    by (simp add: scan_project_def plain_project_detect plain_project_entries
        GitignoreParser_def two_projects_env_def)
qed

lemma example_projects_are_directories:
  "is_dir plain_project" "is_dir closed_project"
  by (simp_all add: plain_project_def closed_project_def)

text \<open>
  A run that returns gives status 0 exactly when the \<open>try\<close> block of some project came
  to its end; with no input root the root is created and nothing is scanned; with no
  directory in the root nothing is scanned either.
\<close>

lemma main_returned_status:
  "run_outcome (main env) = Returned n \<Longrightarrow>
   n = (if \<exists>r \<in> set (run_scanned (main env)). \<not> isl (snd r) then 0 else 1)"
  by (auto simp: main_def Let_def filter_empty_conv
      split: option.splits if_splits prod.splits sum.splits)

lemma main_status_zero_only_after_success:
  "exit_status (run_outcome (main env)) = 0 \<Longrightarrow>
   \<exists>r \<in> set (run_scanned (main env)). \<not> isl (snd r)"
  using main_returned_status [of env 0]
  by (cases "run_outcome (main env)") (auto split: if_splits)

lemma main_missing_input_dir:
  "env_input_dir env = None \<Longrightarrow>
   main env = \<lparr> run_outcome = Returned 1, input_dir_created = True, run_scanned = [] \<rparr>"
  by (simp add: main_def)

lemma main_no_projects:
  "env_input_dir env = Some (Dir True es) \<Longrightarrow> env_output_dir_ok env \<Longrightarrow>
   \<forall>e \<in> set es. is_file (snd e) \<Longrightarrow>
   main env = \<lparr> run_outcome = Returned 1, input_dir_created = False, run_scanned = [] \<rparr>"
proof -
  assume "\<forall>e \<in> set es. is_file (snd e)"
  then have "filter (\<lambda>d. is_dir (snd d)) es = []"
    by (auto simp: filter_empty_conv fsnode.disc_eq_case split: fsnode.splits)
  moreover assume "env_input_dir env = Some (Dir True es)" "env_output_dir_ok env"
  ultimately show ?thesis
    by (simp add: main_def)
qed

text \<open>
  Claim C6 says that the exit status is 0 if and only if at least one project was scanned
  successfully. One half holds: a run ends with status 0 only after some project was
  scanned successfully, a missing input root is created and nothing is scanned, and a
  root without directories ends the run with status 1 (lemmas above). The other half
  does not: the classifier, the test for the override file and the construction of the
  scanner run before the \<open>try\<close> block, so an exception they raise is caught by nothing.
  With the projects \<open>a\<close> and \<open>b\<close>, where \<open>b\<close> may not be searched, \<open>a\<close> is scanned
  successfully, then the first \<open>exists()\<close> of the classifier raises \<open>PermissionError\<close>
  in \<open>b\<close> and the process ends with status 1.
\<close>

theorem main_aborts_after_success:
  "map fst (run_scanned (main two_projects_env)) = [''a'']
   \<and> \<not> isl (snd (hd (run_scanned (main two_projects_env))))
   \<and> run_outcome (main two_projects_env) = Uncaught PermissionError
   \<and> exit_status (run_outcome (main two_projects_env)) = 1"
proof -
  obtain written st where a:
    "scan_project two_projects_env ''a'' plain_project = Inr (Inr (written, st))"
    using plain_project_turn by blast
  have b: "scan_project two_projects_env ''b'' closed_project = Inl PermissionError"
    by (simp add: scan_project_def closed_project_detect)
  have e: "env_input_dir two_projects_env
             = Some (Dir True [(''b'', closed_project), (''a'', plain_project)])"
          "env_output_dir_ok two_projects_env"
    by (simp_all add: two_projects_env_def)
  have "main two_projects_env =
          \<lparr> run_outcome = Uncaught PermissionError, input_dir_created = False,
            run_scanned = [(''a'', Inr (written, st))] \<rparr>"
    using a b by (simp add: main_def e example_projects_are_directories)
  then show ?thesis by simp
qed

end
